theory Spec2Isabelle
  imports Main "HOL-Library.Multiset"
begin

section \<open>Go string helpers used by the route discoverer\<close>

text \<open>
  Go strings are byte sequences; they are modelled as \<^typ>\<open>string\<close>.
  \<^verbatim>\<open>strings.HasSuffix(s, suffix)\<close> is
  \<^verbatim>\<open>len(s) >= len(suffix) && s[len(s)-len(suffix):] == suffix\<close>,
  \<^verbatim>\<open>strings.TrimSuffix\<close> cuts the suffix off once when it is there, and
  \<^verbatim>\<open>strings.Contains\<close> looks for the substring at every position.
\<close>

definition HasPrefix :: "string \<Rightarrow> string \<Rightarrow> bool" where
  "HasPrefix s pre = (length pre \<le> length s \<and> take (length pre) s = pre)"

definition HasSuffix :: "string \<Rightarrow> string \<Rightarrow> bool" where
  "HasSuffix s suf = (length suf \<le> length s \<and> drop (length s - length suf) s = suf)"

definition TrimSuffix :: "string \<Rightarrow> string \<Rightarrow> string" where
  "TrimSuffix s suf = (if HasSuffix s suf then take (length s - length suf) s else s)"

fun Contains :: "string \<Rightarrow> string \<Rightarrow> bool" where
  "Contains [] sub = (sub = [])"
| "Contains (c # cs) sub = (HasPrefix (c # cs) sub \<or> Contains cs sub)"

section \<open>Endpoints (graphql\_client.go, route discoverer part)\<close>

record Endpoint =
  Host :: string
  Path :: string

record ResourceMapping =
  Name :: string
  Alias :: "string option"
  Address :: string

text \<open>\<^verbatim>\<open>CanonicalKey\<close>: host, a NUL byte, path.\<close>

definition CanonicalKey :: "Endpoint \<Rightarrow> string" where
  "CanonicalKey e = Host e @ [char_of (0::nat)] @ Path e"

definition ResourceName :: "Endpoint \<Rightarrow> string" where
  "ResourceName e = Host e"

text \<open>\<^verbatim>\<open>ResourceAlias\<close> returns a nil pointer for a wildcard host.\<close>

definition ResourceAlias :: "Endpoint \<Rightarrow> string option" where
  "ResourceAlias e = (if Contains (Host e) ''*'' then None else Some (Host e))"

definition ToResourceMapping :: "Endpoint \<Rightarrow> string \<Rightarrow> ResourceMapping" where
  "ToResourceMapping e caddyAddress =
     \<lparr>Name = ResourceName e, Alias = ResourceAlias e, Address = caddyAddress\<rparr>"

text \<open>
  \<^verbatim>\<open>normalizePath\<close>, statement by statement: trim one trailing star, append a
  slash unless the path is empty, is the root or ends with a slash, and turn the root
  into the empty path.
\<close>

definition normalizePath :: "string \<Rightarrow> string" where
  "normalizePath path =
     (let path1 = TrimSuffix path ''*'';
          path2 = (if path1 \<noteq> [] \<and> path1 \<noteq> ''/'' \<and> \<not> HasSuffix path1 ''/''
                   then path1 @ ''/'' else path1)
      in if path2 = ''/'' then [] else path2)"

text \<open>
  The normalisation rule as the specification words it, on the last character of the
  path: strip a trailing wildcard character; if the result is non-empty and not the
  root, make sure it ends with a slash; collapse the root to the empty string.
\<close>

definition strip_trailing_wildcard :: "string \<Rightarrow> string" where
  "strip_trailing_wildcard p = (if p \<noteq> [] \<and> last p = CHR ''*'' then butlast p else p)"

definition ensure_trailing_slash :: "string \<Rightarrow> string" where
  "ensure_trailing_slash p =
     (if p \<noteq> [] \<and> p \<noteq> ''/'' \<and> last p \<noteq> CHR ''/'' then p @ ''/'' else p)"

definition normalize_spec :: "string \<Rightarrow> string" where
  "normalize_spec p =
     (let q = ensure_trailing_slash (strip_trailing_wildcard p)
      in if q = ''/'' then [] else q)"

section \<open>Data model of the reconciliation engine (types file, sync.go)\<close>

text \<open>
  The structs of the source, with the struct name as a prefix of each field where two
  structs share a field name. A Go \<^verbatim>\<open>*string\<close> is a \<^typ>\<open>string option\<close>.
\<close>

record RemoteNetwork =
  net_ID :: string
  net_Name :: string

record Resource =
  res_ID :: string
  res_Name :: string
  res_Address :: string
  res_Alias :: "string option"
  res_RemoteNetworkID :: string

record ResourceCreateInput =
  ci_Name :: string
  ci_Address :: string
  ci_RemoteNetworkID :: string
  ci_Alias :: string

record ResourceUpdateInput =
  ui_ID :: string
  ui_Name :: "string option"
  ui_Address :: "string option"
  ui_Alias :: "string option"

record CleanupConfig =
  Enabled :: bool
  DryRun :: bool

record SyncSummary =
  TotalMappings :: nat
  RemoteNetworkAction :: string
  RemoteNetworkName :: string
  RemoteNetworkID :: string
  ResourcesToCreate :: nat
  ResourcesToUpdate :: nat

text \<open>
  Go errors as values. \<open>ErrTransport\<close> is the error that \<^verbatim>\<open>client.Query\<close> or
  \<^verbatim>\<open>client.Mutate\<close> returns, \<open>ErrMsg\<close> a \<^verbatim>\<open>fmt.Errorf\<close> with its
  formatted text, \<open>ErrWrap\<close> a \<^verbatim>\<open>fmt.Errorf("...: %w", err)\<close>, and \<open>ErrSync\<close> the
  aggregate error of \<^verbatim>\<open>SyncResources\<close> with its three counts.
\<close>

datatype error =
    ErrTransport
  | ErrMsg string
  | ErrWrap string error
  | ErrSync nat nat nat

definition DefaultRemoteNetworkName :: string where
  "DefaultRemoteNetworkName = ''Caddy-Managed''"

section \<open>The remote inventory behind the GraphQL client\<close>

text \<open>
  The transport and the remote service are outside the repository. They are modelled as
  a world: the inventory the service holds, in the order it lists it, a script of the
  outcomes of the coming calls (one per call, \<open>Ok\<close> once the script is used up), and
  the log of the calls issued so far. \<open>Fail\<close> is a transport error, \<open>NotOk\<close> an
  answer whose \<^verbatim>\<open>ok\<close> flag is false with its optional message, \<open>OkNoEntity\<close>
  an answer whose flag is true and whose entity is missing. A query asking for
  \<^verbatim>\<open>first: n\<close> is answered with the first \<open>n\<close> entries, as a connection field does.
\<close>

datatype call =
    QueryRemoteNetworks nat
  | QueryResources nat
  | MutateRemoteNetworkCreate string
  | MutateResourceCreate string string string string
  | MutateResourceUpdate string string string string
  | MutateResourceDelete string

datatype outcome = Ok | OkNoEntity | NotOk "string option" | Fail

record world =
  networks :: "RemoteNetwork list"
  resources :: "Resource list"
  script :: "outcome list"
  log :: "call list"

record 'a payload =
  pl_OK :: bool
  pl_Error :: "string option"
  pl_Entity :: "'a option"

definition next_outcome :: "outcome list \<Rightarrow> outcome" where
  "next_outcome outs = (case outs of [] \<Rightarrow> Ok | out # rest \<Rightarrow> out)"

definition advance :: "call \<Rightarrow> world \<Rightarrow> world" where
  "advance c w = w\<lparr>script := tl (script w), log := log w @ [c]\<rparr>"

definition respond :: "call \<Rightarrow> world \<Rightarrow> outcome \<times> world" where
  "respond c w = (next_outcome (script w), advance c w)"

text \<open>
  Identifiers are chosen by the service, and it never hands out one that is in use: the
  model takes one longer than every identifier of the inventory.
\<close>

definition fresh_id :: "world \<Rightarrow> string" where
  "fresh_id w =
     ''id-'' @ replicate
       (Suc (fold max (map (\<lambda>n. length (net_ID n)) (networks w)
                       @ map (\<lambda>r. length (res_ID r)) (resources w)) 0))
       (CHR ''i'')"

definition Query_remoteNetworks :: "nat \<Rightarrow> world \<Rightarrow> (error + RemoteNetwork list) \<times> world" where
  "Query_remoteNetworks first w =
     (case respond (QueryRemoteNetworks first) w of
        (out, w') \<Rightarrow>
          if out = Fail then (Inl ErrTransport, w')
          else (Inr (take first (networks w')), w'))"

definition Query_resources :: "nat \<Rightarrow> world \<Rightarrow> (error + Resource list) \<times> world" where
  "Query_resources first w =
     (case respond (QueryResources first) w of
        (out, w') \<Rightarrow>
          if out = Fail then (Inl ErrTransport, w')
          else (Inr (take first (resources w')), w'))"

text \<open>
  A mutation: the service applies \<open>apply\<close> to its inventory when the outcome is \<open>Ok\<close>
  or \<open>OkNoEntity\<close>, and answers with the entity \<open>ent\<close> computes from the new inventory.
\<close>

definition mutate ::
  "call \<Rightarrow> (world \<Rightarrow> world) \<Rightarrow> (world \<Rightarrow> 'a option) \<Rightarrow> world \<Rightarrow> (error + 'a payload) \<times> world" where
  "mutate c apply ent w =
     (case respond c w of
        (out, w') \<Rightarrow>
          (case out of
             Fail \<Rightarrow> (Inl ErrTransport, w')
           | NotOk msg \<Rightarrow> (Inr \<lparr>pl_OK = False, pl_Error = msg, pl_Entity = None\<rparr>, w')
           | OkNoEntity \<Rightarrow> (Inr \<lparr>pl_OK = True, pl_Error = None, pl_Entity = None\<rparr>, apply w')
           | Ok \<Rightarrow> (Inr \<lparr>pl_OK = True, pl_Error = None, pl_Entity = ent (apply w')\<rparr>, apply w')))"

definition alias_of_string :: "string \<Rightarrow> string option" where
  "alias_of_string a = (if a = [] then None else Some a)"

definition Mutate_remoteNetworkCreate ::
  "string \<Rightarrow> world \<Rightarrow> (error + RemoteNetwork payload) \<times> world" where
  "Mutate_remoteNetworkCreate name w =
     (let n = \<lparr>net_ID = fresh_id w, net_Name = name\<rparr>
      in mutate (MutateRemoteNetworkCreate name)
           (\<lambda>v. v\<lparr>networks := networks v @ [n]\<rparr>) (\<lambda>v. Some n) w)"

definition Mutate_resourceCreate ::
  "string \<Rightarrow> string \<Rightarrow> string \<Rightarrow> string \<Rightarrow> world \<Rightarrow> (error + Resource payload) \<times> world" where
  "Mutate_resourceCreate name address remoteNetworkId alias w =
     (let r = \<lparr>res_ID = fresh_id w, res_Name = name, res_Address = address,
                res_Alias = alias_of_string alias, res_RemoteNetworkID = remoteNetworkId\<rparr>
      in mutate (MutateResourceCreate name address remoteNetworkId alias)
           (\<lambda>v. v\<lparr>resources := resources v @ [r]\<rparr>) (\<lambda>v. Some r) w)"

definition Mutate_resourceUpdate ::
  "string \<Rightarrow> string \<Rightarrow> string \<Rightarrow> string \<Rightarrow> world \<Rightarrow> (error + Resource payload) \<times> world" where
  "Mutate_resourceUpdate ident name address alias w =
     mutate (MutateResourceUpdate ident name address alias)
       (\<lambda>v. v\<lparr>resources :=
               map (\<lambda>r. if res_ID r = ident
                         then r\<lparr>res_Name := name, res_Address := address,
                                res_Alias := alias_of_string alias\<rparr>
                         else r) (resources v)\<rparr>)
       (\<lambda>v. find (\<lambda>r. res_ID r = ident) (resources v)) w"

definition Mutate_resourceDelete ::
  "string \<Rightarrow> world \<Rightarrow> (error + unit payload) \<times> world" where
  "Mutate_resourceDelete ident w =
     mutate (MutateResourceDelete ident)
       (\<lambda>v. v\<lparr>resources := filter (\<lambda>r. res_ID r \<noteq> ident) (resources v)\<rparr>)
       (\<lambda>v. None) w"

section \<open>The client (graphql\_client.go)\<close>

definition GetRemoteNetworks :: "world \<Rightarrow> (error + RemoteNetwork list) \<times> world" where
  "GetRemoteNetworks w =
     (case Query_remoteNetworks 100 w of
        (Inl err, w') \<Rightarrow> (Inl (ErrWrap ''failed to query remote networks'' err), w')
      | (Inr edges, w') \<Rightarrow> (Inr edges, w'))"

definition GetRemoteNetworkByName ::
  "string \<Rightarrow> world \<Rightarrow> (error + RemoteNetwork option) \<times> world" where
  "GetRemoteNetworkByName name w =
     (case GetRemoteNetworks w of
        (Inl err, w') \<Rightarrow> (Inl err, w')
      | (Inr nets, w') \<Rightarrow> (Inr (find (\<lambda>network. net_Name network = name) nets), w'))"

definition errorMsg :: "string option \<Rightarrow> string" where
  "errorMsg e = (case e of None \<Rightarrow> ''unknown error'' | Some m \<Rightarrow> m)"

definition CreateRemoteNetwork :: "string \<Rightarrow> world \<Rightarrow> (error + RemoteNetwork) \<times> world" where
  "CreateRemoteNetwork name w =
     (case Mutate_remoteNetworkCreate name w of
        (Inl err, w') \<Rightarrow> (Inl (ErrWrap ''failed to create remote network'' err), w')
      | (Inr m, w') \<Rightarrow>
          if \<not> pl_OK m
          then (Inl (ErrMsg (''remote network creation failed: '' @ errorMsg (pl_Error m))), w')
          else (case pl_Entity m of
                  None \<Rightarrow>
                    (Inl (ErrMsg ''remote network creation succeeded but no entity returned''), w')
                | Some entity \<Rightarrow> (Inr entity, w')))"

definition GetOrCreateRemoteNetwork ::
  "string \<Rightarrow> world \<Rightarrow> (error + RemoteNetwork) \<times> world" where
  "GetOrCreateRemoteNetwork name w =
     (case GetRemoteNetworkByName name w of
        (Inl err, w') \<Rightarrow> (Inl err, w')
      | (Inr (Some network), w') \<Rightarrow> (Inr network, w')
      | (Inr None, w') \<Rightarrow> CreateRemoteNetwork name w')"

definition GetResources :: "string \<Rightarrow> world \<Rightarrow> (error + Resource list) \<times> world" where
  "GetResources remoteNetworkID w =
     (case Query_resources 100 w of
        (Inl err, w') \<Rightarrow> (Inl (ErrWrap ''failed to query resources'' err), w')
      | (Inr edges, w') \<Rightarrow>
          (Inr (filter (\<lambda>node. remoteNetworkID = [] \<or> res_RemoteNetworkID node = remoteNetworkID)
                  edges), w'))"

definition GetResourceByAlias ::
  "string \<Rightarrow> string \<Rightarrow> world \<Rightarrow> (error + Resource option) \<times> world" where
  "GetResourceByAlias alias remoteNetworkID w =
     (case GetResources remoteNetworkID w of
        (Inl err, w') \<Rightarrow> (Inl err, w')
      | (Inr rs, w') \<Rightarrow> (Inr (find (\<lambda>resource. res_Alias resource = Some alias) rs), w'))"

definition CreateResource :: "ResourceCreateInput \<Rightarrow> world \<Rightarrow> (error + Resource) \<times> world" where
  "CreateResource input w =
     (case Mutate_resourceCreate (ci_Name input) (ci_Address input) (ci_RemoteNetworkID input)
             (ci_Alias input) w of
        (Inl err, w') \<Rightarrow> (Inl (ErrWrap ''failed to create resource'' err), w')
      | (Inr m, w') \<Rightarrow>
          if \<not> pl_OK m
          then (Inl (ErrMsg (''resource creation failed: '' @ errorMsg (pl_Error m))), w')
          else (case pl_Entity m of
                  None \<Rightarrow> (Inl (ErrMsg ''resource creation succeeded but no entity returned''), w')
                | Some entity \<Rightarrow> (Inr entity, w')))"

text \<open>
  \<^verbatim>\<open>UpdateResource\<close> always sends the four variables: a nil field of the input goes
  out as the empty string.
\<close>

definition orEmpty :: "string option \<Rightarrow> string" where
  "orEmpty p = (case p of None \<Rightarrow> [] | Some s \<Rightarrow> s)"

definition UpdateResource :: "ResourceUpdateInput \<Rightarrow> world \<Rightarrow> (error + Resource) \<times> world" where
  "UpdateResource input w =
     (case Mutate_resourceUpdate (ui_ID input) (orEmpty (ui_Name input))
             (orEmpty (ui_Address input)) (orEmpty (ui_Alias input)) w of
        (Inl err, w') \<Rightarrow> (Inl (ErrWrap ''failed to update resource'' err), w')
      | (Inr m, w') \<Rightarrow>
          if \<not> pl_OK m
          then (Inl (ErrMsg (''resource update failed: '' @ errorMsg (pl_Error m))), w')
          else (case pl_Entity m of
                  None \<Rightarrow> (Inl (ErrMsg ''resource update succeeded but no entity returned''), w')
                | Some entity \<Rightarrow> (Inr entity, w')))"

definition DeleteResource :: "string \<Rightarrow> world \<Rightarrow> error option \<times> world" where
  "DeleteResource resourceID w =
     (case Mutate_resourceDelete resourceID w of
        (Inl err, w') \<Rightarrow> (Some (ErrWrap ''failed to delete resource'' err), w')
      | (Inr m, w') \<Rightarrow>
          if \<not> pl_OK m
          then (Some (ErrMsg (''resource deletion failed: '' @ errorMsg (pl_Error m))), w')
          else (None, w'))"

section \<open>The reconciliation engine (sync.go)\<close>

text \<open>
  \<^verbatim>\<open>net.ParseIP\<close> belongs to the Go library; the engine takes it as a parameter
  that tells, for a string that is an IP address, whether \<^verbatim>\<open>To4\<close> gives an IPv4
  address.
\<close>

datatype ipkind = IPv4 | IPv6

definition validateMapping :: "(string \<Rightarrow> ipkind option) \<Rightarrow> ResourceMapping \<Rightarrow> error option" where
  "validateMapping parseIP mapping =
     (if Name mapping = [] then Some (ErrMsg ''resource name cannot be empty'')
      else if Address mapping = [] then Some (ErrMsg ''resource address cannot be empty'')
      else (case parseIP (Address mapping) of
              None \<Rightarrow>
                Some (ErrMsg (''address '' @ [CHR 0x27] @ Address mapping @ [CHR 0x27]
                  @ '' is not a valid IP address''))
            | Some IPv6 \<Rightarrow>
                Some (ErrMsg (''address '' @ [CHR 0x27] @ Address mapping @ [CHR 0x27]
                  @ '' is IPv6, but only IPv4 is currently supported''))
            | Some IPv4 \<Rightarrow> None))"

definition createNewResource :: "ResourceMapping \<Rightarrow> string \<Rightarrow> world \<Rightarrow> error option \<times> world" where
  "createNewResource mapping remoteNetworkID w =
     (let input = \<lparr>ci_Name = Name mapping, ci_Address = Address mapping,
                    ci_RemoteNetworkID = remoteNetworkID, ci_Alias = orEmpty (Alias mapping)\<rparr>
      in case CreateResource input w of
           (Inl err, w') \<Rightarrow> (Some (ErrWrap ''failed to create resource'' err), w')
         | (Inr resource, w') \<Rightarrow> (None, w'))"

text \<open>
  \<^verbatim>\<open>updateExistingResource\<close>: the update input starts from the existing values,
  each of the three comparisons may set \<^verbatim>\<open>needsUpdate\<close> and replace a field, and
  the aliases are compared as strings, a nil alias being the empty string.
\<close>

definition updateExistingResource ::
  "ResourceMapping \<Rightarrow> Resource \<Rightarrow> world \<Rightarrow> error option \<times> world" where
  "updateExistingResource mapping existing w =
     (let needsUpdate0 = False;
          updateInput0 = \<lparr>ui_ID = res_ID existing, ui_Name = Some (res_Name existing),
                           ui_Address = Some (res_Address existing),
                           ui_Alias = res_Alias existing\<rparr>;
          nameDiffers = (res_Name existing \<noteq> Name mapping);
          needsUpdate1 = (if nameDiffers then True else needsUpdate0);
          updateInput1 = (if nameDiffers then updateInput0\<lparr>ui_Name := Some (Name mapping)\<rparr>
                          else updateInput0);
          addressDiffers = (res_Address existing \<noteq> Address mapping);
          needsUpdate2 = (if addressDiffers then True else needsUpdate1);
          updateInput2 = (if addressDiffers
                          then updateInput1\<lparr>ui_Address := Some (Address mapping)\<rparr>
                          else updateInput1);
          currentAlias = orEmpty (res_Alias existing);
          desiredAlias = orEmpty (Alias mapping);
          aliasDiffers = (currentAlias \<noteq> desiredAlias);
          needsUpdate = (if aliasDiffers then True else needsUpdate2);
          updateInput = (if aliasDiffers then updateInput2\<lparr>ui_Alias := Alias mapping\<rparr>
                         else updateInput2)
      in if \<not> needsUpdate then (None, w)
         else (case UpdateResource updateInput w of
                 (Inl err, w') \<Rightarrow> (Some (ErrWrap ''failed to update resource'' err), w')
               | (Inr resource, w') \<Rightarrow> (None, w')))"

definition syncSingleResource ::
  "(string \<Rightarrow> ipkind option) \<Rightarrow> ResourceMapping \<Rightarrow> string \<Rightarrow> world \<Rightarrow> error option \<times> world" where
  "syncSingleResource parseIP mapping remoteNetworkID w =
     (case validateMapping parseIP mapping of
        Some err \<Rightarrow> (Some (ErrWrap ''invalid mapping'' err), w)
      | None \<Rightarrow>
          (case Alias mapping of
             Some alias \<Rightarrow>
               (case GetResourceByAlias alias remoteNetworkID w of
                  (Inl err, w') \<Rightarrow>
                    (Some (ErrWrap ''failed to check for existing resource'' err), w')
                | (Inr (Some existingResource), w') \<Rightarrow>
                    updateExistingResource mapping existingResource w'
                | (Inr None, w') \<Rightarrow> createNewResource mapping remoteNetworkID w')
           | None \<Rightarrow>
               (case GetResources remoteNetworkID w of
                  (Inl err, w') \<Rightarrow> (Some (ErrWrap ''failed to list resources'' err), w')
                | (Inr rs, w') \<Rightarrow>
                    (case find (\<lambda>res. res_Name res = Name mapping) rs of
                       Some existingResource \<Rightarrow>
                         updateExistingResource mapping existingResource w'
                     | None \<Rightarrow> createNewResource mapping remoteNetworkID w'))))"

text \<open>The loop of \<^verbatim>\<open>upsertResources\<close>, with its two counters.\<close>

fun upsertLoop ::
  "(string \<Rightarrow> ipkind option) \<Rightarrow> ResourceMapping list \<Rightarrow> string \<Rightarrow> nat \<times> nat \<Rightarrow> world
     \<Rightarrow> (nat \<times> nat) \<times> world" where
  "upsertLoop parseIP [] networkID (success, errors) w = ((success, errors), w)"
| "upsertLoop parseIP (mapping # rest) networkID (success, errors) w =
     (case syncSingleResource parseIP mapping networkID w of
        (Some err, w') \<Rightarrow> upsertLoop parseIP rest networkID (success, errors + 1) w'
      | (None, w') \<Rightarrow> upsertLoop parseIP rest networkID (success + 1, errors) w')"

definition upsertResources ::
  "(string \<Rightarrow> ipkind option) \<Rightarrow> ResourceMapping list \<Rightarrow> string \<Rightarrow> world \<Rightarrow> (nat \<times> nat) \<times> world" where
  "upsertResources parseIP mappings networkID w = upsertLoop parseIP mappings networkID (0, 0) w"

text \<open>
  \<^verbatim>\<open>deleteStaleResources\<close>: the set of desired names is a Go map from names to
  \<^verbatim>\<open>true\<close>, read with the zero value \<^verbatim>\<open>false\<close> for a missing key.
\<close>

definition desiredNames :: "ResourceMapping list \<Rightarrow> string \<Rightarrow> bool" where
  "desiredNames desiredMappings =
     fold (\<lambda>mapping names. names(Name mapping := True)) desiredMappings (\<lambda>name. False)"

definition staleResources :: "ResourceMapping list \<Rightarrow> Resource list \<Rightarrow> Resource list" where
  "staleResources desiredMappings existingResources =
     filter (\<lambda>resource. \<not> desiredNames desiredMappings (res_Name resource)) existingResources"

fun deleteLoop ::
  "CleanupConfig \<Rightarrow> Resource list \<Rightarrow> nat \<times> nat \<Rightarrow> world \<Rightarrow> (nat \<times> nat) \<times> world" where
  "deleteLoop cleanupConfig [] (deleted, errors) w = ((deleted, errors), w)"
| "deleteLoop cleanupConfig (resource # rest) (deleted, errors) w =
     (if DryRun cleanupConfig then deleteLoop cleanupConfig rest (deleted + 1, errors) w
      else (case DeleteResource (res_ID resource) w of
              (Some err, w') \<Rightarrow> deleteLoop cleanupConfig rest (deleted, errors + 1) w'
            | (None, w') \<Rightarrow> deleteLoop cleanupConfig rest (deleted + 1, errors) w'))"

definition deleteStaleResources ::
  "ResourceMapping list \<Rightarrow> string \<Rightarrow> CleanupConfig \<Rightarrow> world \<Rightarrow> (nat \<times> nat) \<times> world" where
  "deleteStaleResources desiredMappings networkID cleanupConfig w =
     (case GetResources networkID w of
        (Inl err, w') \<Rightarrow> ((0, 1), w')
      | (Inr existingResources, w') \<Rightarrow>
          (let stale = staleResources desiredMappings existingResources
           in if length stale = 0 then ((0, 0), w')
              else deleteLoop cleanupConfig stale (0, 0) w'))"

text \<open>
  \<^verbatim>\<open>SyncResources\<close>. The cleanup configuration is a pointer that may be nil; the
  cleanup pass runs only for a non-nil configuration that is enabled.
\<close>

definition SyncResources ::
  "(string \<Rightarrow> ipkind option) \<Rightarrow> ResourceMapping list \<Rightarrow> string \<Rightarrow> CleanupConfig option \<Rightarrow> world
     \<Rightarrow> error option \<times> world" where
  "SyncResources parseIP mappings remoteNetworkName cleanupConfig w =
     (if length mappings = 0 then (None, w)
      else
        (let networkName = (if remoteNetworkName = [] then DefaultRemoteNetworkName
                            else remoteNetworkName)
         in case GetOrCreateRemoteNetwork networkName w of
              (Inl err, w1) \<Rightarrow> (Some (ErrWrap ''failed to get or create remote network'' err), w1)
            | (Inr network, w1) \<Rightarrow>
                (case upsertResources parseIP mappings (net_ID network) w1 of
                   ((successCount, errorCount), w2) \<Rightarrow>
                     (case (case cleanupConfig of
                              None \<Rightarrow> ((0, 0), w2)
                            | Some cfg \<Rightarrow>
                                if Enabled cfg
                                then deleteStaleResources mappings (net_ID network) cfg w2
                                else ((0, 0), w2)) of
                        ((deleteCount, deleteErrors), w3) \<Rightarrow>
                          (let totalErrors = errorCount + deleteErrors
                           in if totalErrors > 0
                              then (Some (ErrSync totalErrors errorCount deleteErrors), w3)
                              else (None, w3))))))"

text \<open>
  \<^verbatim>\<open>GetSyncSummary\<close>: the preview. A mapping whose lookup fails is counted in
  neither counter (the \<^verbatim>\<open>continue\<close> of the loop).
\<close>

fun summaryLoop ::
  "ResourceMapping list \<Rightarrow> RemoteNetwork option \<Rightarrow> SyncSummary \<Rightarrow> world \<Rightarrow> SyncSummary \<times> world" where
  "summaryLoop [] network summary w = (summary, w)"
| "summaryLoop (mapping # rest) None summary w =
     summaryLoop rest None (summary\<lparr>ResourcesToCreate := ResourcesToCreate summary + 1\<rparr>) w"
| "summaryLoop (mapping # rest) (Some network) summary w =
     (case (case Alias mapping of
              Some alias \<Rightarrow> GetResourceByAlias alias (net_ID network) w
            | None \<Rightarrow>
                (case GetResources (net_ID network) w of
                   (Inl err, w') \<Rightarrow> (Inl err, w')
                 | (Inr rs, w') \<Rightarrow> (Inr (find (\<lambda>res. res_Name res = Name mapping) rs), w'))) of
        (Inl err, w') \<Rightarrow> summaryLoop rest (Some network) summary w'
      | (Inr (Some existing), w') \<Rightarrow>
          summaryLoop rest (Some network)
            (summary\<lparr>ResourcesToUpdate := ResourcesToUpdate summary + 1\<rparr>) w'
      | (Inr None, w') \<Rightarrow>
          summaryLoop rest (Some network)
            (summary\<lparr>ResourcesToCreate := ResourcesToCreate summary + 1\<rparr>) w')"

definition GetSyncSummary ::
  "ResourceMapping list \<Rightarrow> string \<Rightarrow> world \<Rightarrow> (error + SyncSummary) \<times> world" where
  "GetSyncSummary mappings remoteNetworkName w =
     (let summary = \<lparr>TotalMappings = length mappings, RemoteNetworkAction = [],
                      RemoteNetworkName = [], RemoteNetworkID = [],
                      ResourcesToCreate = 0, ResourcesToUpdate = 0\<rparr>
      in if length mappings = 0 then (Inr summary, w)
         else
           (let networkName = (if remoteNetworkName = [] then DefaultRemoteNetworkName
                               else remoteNetworkName)
            in case GetRemoteNetworkByName networkName w of
                 (Inl err, w') \<Rightarrow> (Inl (ErrWrap ''failed to check remote network'' err), w')
               | (Inr None, w') \<Rightarrow>
                   (case summaryLoop mappings None
                           (summary\<lparr>RemoteNetworkAction := ''create'',
                                     RemoteNetworkName := networkName\<rparr>) w' of
                      (s, w'') \<Rightarrow> (Inr s, w''))
               | (Inr (Some network), w') \<Rightarrow>
                   (case summaryLoop mappings (Some network)
                           (summary\<lparr>RemoteNetworkAction := ''use_existing'',
                                     RemoteNetworkName := net_Name network,
                                     RemoteNetworkID := net_ID network\<rparr>) w' of
                      (s, w'') \<Rightarrow> (Inr s, w''))))"

section \<open>Measuring a run\<close>

text \<open>
  The outcomes the next \<open>n\<close> calls meet, read off the script, and the outcomes that
  make \<^verbatim>\<open>DeleteResource\<close> return an error: a transport error, or an answer
  whose \<^verbatim>\<open>ok\<close> flag is false.
\<close>

fun outcomes :: "nat \<Rightarrow> outcome list \<Rightarrow> outcome list" where
  "outcomes 0 outs = []"
| "outcomes (Suc n) outs = next_outcome outs # outcomes n (tl outs)"

definition delete_fails :: "outcome \<Rightarrow> bool" where
  "delete_fails out = (case out of Fail \<Rightarrow> True | NotOk msg \<Rightarrow> True | Ok \<Rightarrow> False | OkNoEntity \<Rightarrow> False)"

section \<open>Fixtures\<close>

text \<open>
  The fixtures of the repository's tests: resources of network \<open>net1\<close> at address
  \<open>10.0.0.1\<close>, mappings to that address, and an address parser that knows the two
  addresses the tests and the specification use.
\<close>

definition example_resource :: "string \<Rightarrow> string \<Rightarrow> Resource" where
  "example_resource ident name =
     \<lparr>res_ID = ident, res_Name = name, res_Address = ''10.0.0.1'', res_Alias = None,
      res_RemoteNetworkID = ''net1''\<rparr>"

definition example_mapping :: "string \<Rightarrow> ResourceMapping" where
  "example_mapping name = \<lparr>Name = name, Alias = None, Address = ''10.0.0.1''\<rparr>"

definition example_world :: "Resource list \<Rightarrow> outcome list \<Rightarrow> world" where
  "example_world rs outs =
     \<lparr>networks = [\<lparr>net_ID = ''net1'', net_Name = ''Caddy-Managed''\<rparr>], resources = rs,
      script = outs, log = []\<rparr>"

definition example_parseIP :: "string \<Rightarrow> ipkind option" where
  "example_parseIP a =
     (if a = ''10.0.0.1'' then Some IPv4 else if a = ''2001:db8::1'' then Some IPv6 else None)"

lemmas example_defs = example_world_def example_resource_def example_mapping_def example_parseIP_def

definition example_network :: "string \<Rightarrow> string \<Rightarrow> RemoteNetwork" where
  "example_network ident name = \<lparr>net_ID = ident, net_Name = name\<rparr>"

text \<open>
  An inventory of 101 networks and 101 resources: the managed network and its resource
  are listed last, after a hundred entries of another network.
\<close>

definition crowded_world :: world where
  "crowded_world =
     \<lparr>networks = replicate 100 (example_network ''net0'' ''other'')
                   @ [example_network ''net1'' ''Caddy-Managed''],
      resources = replicate 100 ((example_resource ''res0'' ''other.example.com'')
                                   \<lparr>res_RemoteNetworkID := ''net0''\<rparr>)
                    @ [example_resource ''res1'' ''api.example.com''],
      script = [], log = []\<rparr>"

section \<open>Stating what a run issues\<close>

text \<open>
  The calls a run adds to the log, the calls that create or update something, and what
  it means for the remote state to agree with the mappings already: a mapping is up to
  date with a resource when names and addresses are equal and the aliases are equal as
  the engine compares them, and the inventory is in sync when every mapping is valid and
  its lookup, by alias or else by name in the listing of the network, finds a resource
  it is up to date with.
\<close>

definition new_calls :: "world \<Rightarrow> world \<Rightarrow> call list" where
  "new_calls w w' = drop (length (log w)) (log w')"

definition is_create_or_update :: "call \<Rightarrow> bool" where
  "is_create_or_update c =
     (case c of
        MutateRemoteNetworkCreate name \<Rightarrow> True
      | MutateResourceCreate name address remoteNetworkId alias \<Rightarrow> True
      | MutateResourceUpdate ident name address alias \<Rightarrow> True
      | _ \<Rightarrow> False)"

definition up_to_date :: "ResourceMapping \<Rightarrow> Resource \<Rightarrow> bool" where
  "up_to_date mapping existing =
     (res_Name existing = Name mapping \<and> res_Address existing = Address mapping
      \<and> orEmpty (res_Alias existing) = orEmpty (Alias mapping))"

definition visible :: "string \<Rightarrow> world \<Rightarrow> Resource list" where
  "visible nid w = filter (\<lambda>node. nid = [] \<or> res_RemoteNetworkID node = nid) (take 100 (resources w))"

definition lookupExisting :: "ResourceMapping \<Rightarrow> Resource list \<Rightarrow> Resource option" where
  "lookupExisting mapping rs =
     (case Alias mapping of
        Some alias \<Rightarrow> find (\<lambda>resource. res_Alias resource = Some alias) rs
      | None \<Rightarrow> find (\<lambda>res. res_Name res = Name mapping) rs)"

definition in_sync :: "(string \<Rightarrow> ipkind option) \<Rightarrow> string \<Rightarrow> ResourceMapping list \<Rightarrow> world \<Rightarrow> bool" where
  "in_sync parseIP nid ms w =
     list_all (\<lambda>m. validateMapping parseIP m = None
                  \<and> (case lookupExisting m (visible nid w) of
                        None \<Rightarrow> False
                      | Some existing \<Rightarrow> up_to_date m existing)) ms"

text \<open>
  A call that creates a network, and a call that creates no network but one of the
  given name.
\<close>

definition is_network_create :: "call \<Rightarrow> bool" where
  "is_network_create c = (case c of MutateRemoteNetworkCreate n \<Rightarrow> True | _ \<Rightarrow> False)"

definition creates_only_network :: "string \<Rightarrow> call \<Rightarrow> bool" where
  "creates_only_network name c =
     (case c of MutateRemoteNetworkCreate n \<Rightarrow> n = name | _ \<Rightarrow> True)"

definition empty_world :: world where
  "empty_world = \<lparr>networks = [], resources = [], script = [], log = []\<rparr>"

section \<open>The routing tree\<close>

text \<open>
  The routing configuration comes from the Caddy library. A route carries matcher sets
  and handlers in two forms: provisioned values (\<^verbatim>\<open>MatcherSets\<close>,
  \<^verbatim>\<open>Handlers\<close>) and raw JSON (\<^verbatim>\<open>HandlersRaw\<close>). The discoverer tells three
  kinds of provisioned handler apart by a type switch, and reads two kinds of matcher.
  A raw message is a JSON value; bytes that do not parse take the same early return as
  a value that is not an object.
\<close>

datatype json =
    JNull
  | JBool bool
  | JNumber int
  | JString string
  | JArray "json list"
  | JObject "(string \<times> json) list"

datatype matcher = MatchHost "string list" | MatchPath "string list" | MatchOther string

datatype handler =
    ReverseProxy
  | Subroute "route list"
  | OtherHandler string
and route =
    Route (MatcherSets: "matcher list list") (Handlers: "handler list") (HandlersRaw: "json list")

record RouteContext =
  ctx_Hosts :: "string list"
  ctx_Path :: string

type_synonym endpointMap = "(string \<times> Endpoint) list"

text \<open>
  Decoding with \<^verbatim>\<open>encoding/json\<close>. In a map decoded from an object, a key that
  occurs twice keeps its last value. \<^verbatim>\<open>json.Unmarshal\<close> into a
  \<^verbatim>\<open>caddyhttp.Route\<close> fills the raw fields only (\<^verbatim>\<open>group\<close>, \<^verbatim>\<open>match\<close>,
  \<^verbatim>\<open>handle\<close>, \<^verbatim>\<open>terminal\<close>): the provisioned matcher sets and handlers are
  interface values outside the JSON form of the struct, so a decoded route has none. A
  key of the object belongs to a field when it equals the field's name up to the case of
  its letters; every value of a field must have the field's JSON type or be null, or the
  decoding fails; the last value of a field is the one it keeps, a null emptying it. A
  JSON null in place of the object leaves the route empty.
\<close>

definition object_get :: "(string \<times> json) list \<Rightarrow> string \<Rightarrow> json option" where
  "object_get kvs k = map_of (rev kvs) k"

definition toLower :: "char \<Rightarrow> char" where
  "toLower c =
     (if 65 \<le> (of_char c :: nat) \<and> (of_char c :: nat) \<le> 90
      then char_of ((of_char c :: nat) + 32) else c)"

definition field_values :: "(string \<times> json) list \<Rightarrow> string \<Rightarrow> json list" where
  "field_values kvs name = map snd (filter (\<lambda>kv. map toLower (fst kv) = name) kvs)"

definition field_ok :: "(string \<times> json) list \<Rightarrow> string \<Rightarrow> (json \<Rightarrow> bool) \<Rightarrow> bool" where
  "field_ok kvs name ok = list_all (\<lambda>v. v = JNull \<or> ok v) (field_values kvs name)"

definition field_get :: "(string \<times> json) list \<Rightarrow> string \<Rightarrow> json option" where
  "field_get kvs name =
     (case field_values kvs name of [] \<Rightarrow> None | v # vs \<Rightarrow> Some (last (v # vs)))"

definition is_string :: "json \<Rightarrow> bool" where
  "is_string v = (case v of JString s \<Rightarrow> True | _ \<Rightarrow> False)"

definition is_bool :: "json \<Rightarrow> bool" where
  "is_bool v = (case v of JBool b \<Rightarrow> True | _ \<Rightarrow> False)"

definition is_array :: "json \<Rightarrow> bool" where
  "is_array v = (case v of JArray xs \<Rightarrow> True | _ \<Rightarrow> False)"

definition is_module_maps :: "json \<Rightarrow> bool" where
  "is_module_maps v =
     (case v of
        JArray xs \<Rightarrow> list_all (\<lambda>x. case x of JNull \<Rightarrow> True | JObject kvs \<Rightarrow> True | _ \<Rightarrow> False) xs
      | _ \<Rightarrow> False)"

definition unmarshalRoute :: "json \<Rightarrow> route option" where
  "unmarshalRoute routeAny =
     (case routeAny of
        JNull \<Rightarrow> Some (Route [] [] [])
      | JObject kvs \<Rightarrow>
          if field_ok kvs ''group'' is_string \<and> field_ok kvs ''match'' is_module_maps
             \<and> field_ok kvs ''handle'' is_array \<and> field_ok kvs ''terminal'' is_bool
          then Some (Route [] []
                 (case field_get kvs ''handle'' of Some (JArray raws) \<Rightarrow> raws | _ \<Rightarrow> []))
          else None
      | _ \<Rightarrow> None)"

section \<open>The route discoverer (graphql\_client.go, second part)\<close>

definition mergeMatchers :: "route \<Rightarrow> RouteContext \<Rightarrow> RouteContext" where
  "mergeMatchers route parentCtx =
     fold (\<lambda>matcherSet ctx.
             fold (\<lambda>matcher ctx.
                     case matcher of
                       MatchHost m \<Rightarrow> ctx\<lparr>ctx_Hosts := m\<rparr>
                     | MatchPath paths \<Rightarrow>
                         (case paths of
                            [] \<Rightarrow> ctx
                          | p # ps \<Rightarrow> ctx\<lparr>ctx_Path := normalizePath p\<rparr>)
                     | MatchOther name \<Rightarrow> ctx)
                  matcherSet ctx)
          (MatcherSets route) \<lparr>ctx_Hosts = ctx_Hosts parentCtx, ctx_Path = ctx_Path parentCtx\<rparr>"

text \<open>
  The endpoint map is a Go map from canonical keys to endpoints; it is modelled as an
  association list in the order of first insertion.
\<close>

definition emitEndpoints :: "RouteContext \<Rightarrow> endpointMap \<Rightarrow> endpointMap" where
  "emitEndpoints ctx endpointMap =
     (let hosts = (if length (ctx_Hosts ctx) = 0 then [''localhost''] else ctx_Hosts ctx)
      in fold (\<lambda>host em.
                 let ep = \<lparr>Host = host, Path = ctx_Path ctx\<rparr>;
                     key = CanonicalKey ep
                 in if map_of em key = None then em @ [(key, ep)] else em)
              hosts endpointMap)"

text \<open>The weights that decrease along the traversal, raw handlers included.\<close>

fun handler_weight :: "handler \<Rightarrow> nat" and route_weight :: "route \<Rightarrow> nat" where
  "handler_weight ReverseProxy = 0"
| "handler_weight (Subroute routes) = Suc (sum_list (map route_weight routes))"
| "handler_weight (OtherHandler name) = 0"
| "route_weight (Route matcherSets handlers raws) =
     Suc (sum_list (map handler_weight handlers) + size_list size raws)"

lemma weight_member: "x \<in> set xs \<Longrightarrow> f x \<le> sum_list (map f xs)" for f :: "'a \<Rightarrow> nat"
  by (induction xs) auto

lemma object_get_size: "object_get kvs k = Some v \<Longrightarrow> size v < size (JObject kvs)"
proof -
  assume "object_get kvs k = Some v"
  then have "(k, v) \<in> set kvs"
    by (auto simp: object_get_def dest: map_of_SomeD)
  then have "size v < Suc (size_list (size_prod (\<lambda>x. 0) size) kvs)"
    by (induction kvs) auto
  then show ?thesis by simp
qed

lemma array_elem_size: "x \<in> set xs \<Longrightarrow> size x < size (JArray xs)"
  by (induction xs) auto

lemma field_get_size: "field_get kvs name = Some v \<Longrightarrow> size v < size (JObject kvs)"
proof -
  assume "field_get kvs name = Some v"
  then have "v \<in> set (field_values kvs name)"
    by (auto simp: field_get_def split: list.splits if_splits)
  then obtain k where "(k, v) \<in> set kvs"
    by (auto simp: field_values_def)
  then have "size v < Suc (size_list (size_prod (\<lambda>x. 0) size) kvs)"
    by (induction kvs) auto
  then show ?thesis by simp
qed

lemma unmarshalRoute_size: "unmarshalRoute ra = Some rt \<Longrightarrow> route_weight rt \<le> Suc (size ra)"
proof (cases ra)
  case (JObject kvs)
  assume dec: "unmarshalRoute ra = Some rt"
  show ?thesis
  proof (cases "field_get kvs ''handle''")
    case None
    with dec JObject show ?thesis
      by (auto simp: unmarshalRoute_def split: if_splits)
  next
    case (Some v)
    from field_get_size [OF Some] have "size v < size ra" using JObject by simp
    with dec JObject Some show ?thesis
      by (cases v) (auto simp: unmarshalRoute_def split: if_splits)
  qed
qed (auto simp: unmarshalRoute_def)

function traverseRoute :: "route \<Rightarrow> RouteContext \<Rightarrow> endpointMap \<Rightarrow> endpointMap"
  and traverseHandler :: "handler \<Rightarrow> RouteContext \<Rightarrow> endpointMap \<Rightarrow> endpointMap"
  and traverseHandlerRaw :: "json \<Rightarrow> RouteContext \<Rightarrow> endpointMap \<Rightarrow> endpointMap"
where
  "traverseRoute route parentCtx endpointMap =
     (let ctx = mergeMatchers route parentCtx;
          em = fold (\<lambda>handler m. traverseHandler handler ctx m) (Handlers route) endpointMap
      in if length (Handlers route) = 0 \<and> length (HandlersRaw route) > 0
         then fold (\<lambda>handlerRaw m. traverseHandlerRaw handlerRaw ctx m) (HandlersRaw route) em
         else em)"
| "traverseHandler ReverseProxy ctx endpointMap = emitEndpoints ctx endpointMap"
| "traverseHandler (Subroute routes) ctx endpointMap =
     fold (\<lambda>route m. traverseRoute route ctx m) routes endpointMap"
| "traverseHandler (OtherHandler name) ctx endpointMap = endpointMap"
| "traverseHandlerRaw handlerRaw ctx endpointMap =
     (case handlerRaw of
        JObject handlerConfig \<Rightarrow>
          (case object_get handlerConfig ''handler'' of
             Some (JString handlerType) \<Rightarrow>
               if handlerType = ''reverse_proxy'' then emitEndpoints ctx endpointMap
               else if handlerType = ''subroute''
               then (case object_get handlerConfig ''routes'' of
                       Some (JArray routes) \<Rightarrow>
                         fold (\<lambda>routeAny m.
                                 case unmarshalRoute routeAny of
                                   Some route \<Rightarrow> traverseRoute route ctx m
                                 | None \<Rightarrow> m)
                              routes endpointMap
                     | _ \<Rightarrow> endpointMap)
               else endpointMap
           | _ \<Rightarrow> endpointMap)
      | _ \<Rightarrow> endpointMap)"
  by pat_completeness auto
termination
proof (relation "measure (\<lambda>x. case x of
    Inl (route, ctx, em) \<Rightarrow> route_weight route
  | Inr (Inl (handler, ctx, em)) \<Rightarrow> handler_weight handler
  | Inr (Inr (raw, ctx, em)) \<Rightarrow> size raw)", goal_cases)
  case 1
  then show ?case by simp
next
  case (2 route parentCtx endpointMap x xa xb)
  then show ?case
    using weight_member [of xa "Handlers route" handler_weight]
    by (cases route) (auto simp: less_Suc_eq_le)
next
  case (3 route parentCtx endpointMap x xa xb xc)
  then show ?case
    by (cases route) (auto simp: less_Suc_eq_le size_list_estimation')
next
  case (4 routes ctx endpointMap x xa)
  then show ?case
    using weight_member [of x routes route_weight] by (auto simp: less_Suc_eq_le)
next
  case (5 handlerRaw ctx endpointMap handlerConfig v handlerType w routes x xa route)
  from 5(1,6,7) have a: "size (JArray routes) < size handlerRaw"
    using object_get_size [of handlerConfig "''routes''" w] by simp
  from 5(8) have b: "size x < size (JArray routes)" by (rule array_elem_size)
  from unmarshalRoute_size [OF 5(9)] a b show ?case by simp
qed

declare traverseRoute.simps [simp del] traverseHandlerRaw.simps [simp del]

text \<open>
  \<^verbatim>\<open>DiscoverEndpoints\<close>: the servers of the HTTP app with their names, in the order
  the Go map yields them; the traversal that fills the endpoint map; the consolidation
  by host, which keeps for every host the endpoint with the empty path. Go leaves the
  order in which \<^verbatim>\<open>range\<close> walks a map open: the two loops over the endpoint map
  and over the host map take that order as a parameter, a function that rearranges the
  entries of the map.
\<close>

type_synonym httpApp = "(string \<times> route list) list"

definition discoverEndpointMap :: "httpApp \<Rightarrow> endpointMap" where
  "discoverEndpointMap servers =
     fold (\<lambda>(serverName, routes) endpointMap.
             let ctx = \<lparr>ctx_Hosts = (if serverName \<noteq> [] \<and> serverName \<noteq> ''srv0''
                                     then [serverName] else []),
                        ctx_Path = []\<rparr>
             in fold (\<lambda>route m. traverseRoute route ctx m) routes endpointMap)
          servers []"

definition consolidateByHost :: "Endpoint list \<Rightarrow> (string \<times> Endpoint) list" where
  "consolidateByHost endpoints =
     fold (\<lambda>ep hostMap.
             if map_of hostMap (Host ep) = None
             then hostMap @ [(Host ep, \<lparr>Host = Host ep, Path = []\<rparr>)]
             else hostMap)
          endpoints []"

definition DiscoverEndpoints ::
  "(Endpoint list \<Rightarrow> Endpoint list) \<Rightarrow> (Endpoint list \<Rightarrow> Endpoint list) \<Rightarrow> httpApp
     \<Rightarrow> Endpoint list" where
  "DiscoverEndpoints rangeEndpointMap rangeHostMap httpApp =
     (let endpointMap = discoverEndpointMap httpApp;
          endpoints = rangeEndpointMap (map snd endpointMap);
          hostMap = consolidateByHost endpoints
      in rangeHostMap (map snd hostMap))"

text \<open>
  The JSON form of a provisioned handler and of a provisioned route, as the Caddy
  configuration writes them: the handler under its \<^verbatim>\<open>handler\<close> key, the routes of
  a subroute under \<^verbatim>\<open>routes\<close>, the matcher sets of a route under \<^verbatim>\<open>match\<close> and
  its handlers under \<^verbatim>\<open>handle\<close>.
\<close>

definition encodeMatcher :: "matcher \<Rightarrow> string \<times> json" where
  "encodeMatcher matcher =
     (case matcher of
        MatchHost hosts \<Rightarrow> (''host'', JArray (map JString hosts))
      | MatchPath paths \<Rightarrow> (''path'', JArray (map JString paths))
      | MatchOther name \<Rightarrow> (name, JNull))"

primrec encodeHandler :: "handler \<Rightarrow> json" and encodeRoute :: "route \<Rightarrow> json" where
  "encodeHandler ReverseProxy = JObject [(''handler'', JString ''reverse_proxy'')]"
| "encodeHandler (Subroute routes) =
     JObject [(''handler'', JString ''subroute''), (''routes'', JArray (map encodeRoute routes))]"
| "encodeHandler (OtherHandler name) = JObject [(''handler'', JString name)]"
| "encodeRoute (Route matcherSets handlers raws) =
     JObject [(''match'', JArray (map (\<lambda>matcherSet. JObject (map encodeMatcher matcherSet))
                                   matcherSets)),
              (''handle'', JArray (if handlers = [] then raws else map encodeHandler handlers))]"

text \<open>
  The routing tree of the specification's end-to-end example, and a subroute with a
  host and a path matcher on its inner route, below a context of another host.
\<close>

definition example_app :: httpApp where
  "example_app =
     [(''srv0'',
       [Route [[MatchHost [''api.example.com'']]]
          [Subroute [Route [[MatchPath [''/v1/*'']]] [ReverseProxy] []]] [],
        Route [[MatchHost [''app.example.com'']]]
          [Subroute [Route [[MatchPath [''/api/*'']]] [ReverseProxy] [],
                     Route [[MatchPath [''/admin/*'']]] [ReverseProxy] []]] []])]"

definition example_subroute :: handler where
  "example_subroute =
     Subroute [Route [[MatchHost [''api.example.com''], MatchPath [''/v1/*'']]] [ReverseProxy] []]"

definition example_context :: RouteContext where
  "example_context = \<lparr>ctx_Hosts = [''gateway.example.com''], ctx_Path = []\<rparr>"

text \<open>
  Handlers on which the two traversals can be compared: no route below the handler has a
  matcher that changes the routing context, and no opaque handler bears the name of one
  of the two kinds the raw traversal knows.
\<close>

definition inert_matcher :: "matcher \<Rightarrow> bool" where
  "inert_matcher matcher =
     (case matcher of MatchHost hosts \<Rightarrow> False | MatchPath paths \<Rightarrow> paths = []
      | MatchOther name \<Rightarrow> True)"

fun plain_handler :: "handler \<Rightarrow> bool" and plain_route :: "route \<Rightarrow> bool" where
  "plain_handler ReverseProxy = True"
| "plain_handler (Subroute routes) = list_all plain_route routes"
| "plain_handler (OtherHandler name) = (name \<noteq> ''reverse_proxy'' \<and> name \<noteq> ''subroute'')"
| "plain_route (Route matcherSets handlers raws) =
     (list_all (list_all inert_matcher) matcherSets \<and> list_all plain_handler handlers)"

section \<open>Stating idempotence\<close>

text \<open>
  Mappings are well keyed when their names are pairwise distinct and their aliases, where
  present, are non-empty and pairwise distinct, as the mappings made from consolidated
  endpoints are. Two worlds have the same inventory when they hold the same networks
  and resources. A resource as an update or a creation for a mapping leaves it, the
  predicate by which a mapping's lookup finds a resource, and the resources a listing of
  a network keeps.
\<close>

definition alias_keys :: "ResourceMapping list \<Rightarrow> string list" where
  "alias_keys ms = concat (map (\<lambda>m. case Alias m of None \<Rightarrow> [] | Some a \<Rightarrow> [a]) ms)"

definition well_keyed :: "ResourceMapping list \<Rightarrow> bool" where
  "well_keyed ms =
     (distinct (map Name ms) \<and> distinct (alias_keys ms) \<and> [] \<notin> set (alias_keys ms))"

definition same_inventory :: "world \<Rightarrow> world \<Rightarrow> bool" where
  "same_inventory v w = (networks v = networks w \<and> resources v = resources w)"

definition updated :: "ResourceMapping \<Rightarrow> Resource \<Rightarrow> Resource" where
  "updated m r = r\<lparr>res_Name := Name m, res_Address := Address m,
                   res_Alias := alias_of_string (orEmpty (Alias m))\<rparr>"

definition created :: "ResourceMapping \<Rightarrow> string \<Rightarrow> string \<Rightarrow> Resource" where
  "created m ident nid =
     \<lparr>res_ID = ident, res_Name = Name m, res_Address = Address m,
      res_Alias = alias_of_string (orEmpty (Alias m)), res_RemoteNetworkID = nid\<rparr>"

definition key_match :: "ResourceMapping \<Rightarrow> Resource \<Rightarrow> bool" where
  "key_match m r = (case Alias m of Some a \<Rightarrow> res_Alias r = Some a | None \<Rightarrow> res_Name r = Name m)"

definition synced :: "ResourceMapping \<Rightarrow> Resource list \<Rightarrow> bool" where
  "synced m rs = (case find (key_match m) rs of None \<Rightarrow> False | Some x \<Rightarrow> up_to_date m x)"

definition in_network :: "string \<Rightarrow> Resource \<Rightarrow> bool" where
  "in_network nid r = (nid = [] \<or> res_RemoteNetworkID r = nid)"

text \<open>
  A mapping as the discoverer makes it from a host, an inventory whose first page is
  full of another network's resources, and mappings that share one alias.
\<close>

definition discovered_mapping :: "string \<Rightarrow> ResourceMapping" where
  "discovered_mapping host = ToResourceMapping \<lparr>Host = host, Path = []\<rparr> ''10.0.0.1''"

definition full_page_world :: world where
  "full_page_world =
     \<lparr>networks = [example_network ''net1'' ''Caddy-Managed''],
      resources = replicate 100 ((example_resource ''res0'' ''other.example.com'')
                                   \<lparr>res_RemoteNetworkID := ''net0''\<rparr>),
      script = [], log = []\<rparr>"

definition shared_alias_mapping :: "string \<Rightarrow> ResourceMapping" where
  "shared_alias_mapping name =
     \<lparr>Name = name, Alias = Some ''shared.example.com'', Address = ''10.0.0.1''\<rparr>"

section \<open>Facts about the string helpers\<close>

lemma HasSuffix_single: "HasSuffix s [c] = (s \<noteq> [] \<and> last s = c)"
proof (cases s rule: rev_cases)
  case Nil
  then show ?thesis by (simp add: HasSuffix_def)
next
  case (snoc ys y)
  then show ?thesis by (auto simp: HasSuffix_def)
qed

lemma TrimSuffix_single:
  "TrimSuffix s [c] = (if s \<noteq> [] \<and> last s = c then butlast s else s)"
  by (simp add: TrimSuffix_def HasSuffix_single butlast_conv_take)

lemma HasPrefix_single: "HasPrefix s [c] = (s \<noteq> [] \<and> hd s = c)"
  by (cases s) (auto simp: HasPrefix_def)

lemma Contains_single: "Contains s [c] = (c \<in> set s)"
  by (induction s) (auto simp: HasPrefix_single)

section \<open>Path normalisation\<close>

text \<open>
  Claim C7. For every input string, \<open>normalizePath\<close> strips a trailing wildcard
  character, then appends a slash when the result is non-empty, is not the root and has
  no trailing slash, and maps the root to the empty string: it computes the rule of the
  specification. In particular it sends \<open>/api/*\<close> to \<open>/api/\<close>, \<open>/api\<close> to \<open>/api/\<close>,
  \<open>/\<close> to the empty string, \<open>/admin/*\<close> to \<open>/admin/\<close> and \<open>/*\<close> to the empty string.
\<close>

theorem normalizePath_spec:
  "normalizePath p = normalize_spec p
   \<and> normalizePath ''/api/*'' = ''/api/''
   \<and> normalizePath ''/api'' = ''/api/''
   \<and> normalizePath ''/'' = ''''
   \<and> normalizePath ''/admin/*'' = ''/admin/''
   \<and> normalizePath ''/*'' = ''''"
proof -
  have gen: "normalizePath q = normalize_spec q" for q
    by (simp add: normalizePath_def normalize_spec_def ensure_trailing_slash_def
        strip_trailing_wildcard_def TrimSuffix_single HasSuffix_single Let_def)
  have "normalize_spec ''/api/*'' = ''/api/''"
    and "normalize_spec ''/api'' = ''/api/''"
    and "normalize_spec ''/'' = ''''"
    and "normalize_spec ''/admin/*'' = ''/admin/''"
    and "normalize_spec ''/*'' = ''''"
    by (simp_all add: normalize_spec_def ensure_trailing_slash_def
        strip_trailing_wildcard_def)
  then show ?thesis by (simp add: gen)
qed

section \<open>Aliases\<close>

text \<open>
  Claim C8. For every endpoint, \<open>ResourceAlias\<close> returns no alias exactly when the
  host contains the wildcard character \<open>*\<close>; in every other case the alias is the host
  string itself.
\<close>

theorem ResourceAlias_wildcard:
  "(ResourceAlias e = None) = (CHR ''*'' \<in> set (Host e))
   \<and> (if CHR ''*'' \<in> set (Host e) then ResourceAlias e = None
       else ResourceAlias e = Some (Host e))"
  by (simp add: ResourceAlias_def Contains_single)

section \<open>Facts about the remote world and the client\<close>

lemma advance_simps [simp]:
  "log (advance c w) = log w @ [c]"
  "script (advance c w) = tl (script w)"
  "networks (advance c w) = networks w"
  "resources (advance c w) = resources w"
  by (simp_all add: advance_def)

lemma GetResources_eq:
  "GetResources nid w =
     (if next_outcome (script w) = Fail then Inl (ErrWrap ''failed to query resources'' ErrTransport)
      else Inr (filter (\<lambda>node. nid = [] \<or> res_RemoteNetworkID node = nid) (take 100 (resources w))),
      advance (QueryResources 100) w)"
  by (simp add: GetResources_def Query_resources_def respond_def)

lemma DeleteResource_eq:
  "DeleteResource i w =
     (let out = next_outcome (script w); w' = advance (MutateResourceDelete i) w
      in (if out = Fail then Some (ErrWrap ''failed to delete resource'' ErrTransport)
          else case out of NotOk msg \<Rightarrow> Some (ErrMsg (''resource deletion failed: '' @ errorMsg msg))
               | _ \<Rightarrow> None,
          if delete_fails out then w'
          else w'\<lparr>resources := filter (\<lambda>r. res_ID r \<noteq> i) (resources w')\<rparr>))"
  by (simp add: DeleteResource_def Mutate_resourceDelete_def mutate_def respond_def delete_fails_def Let_def
      split: outcome.splits)

lemma DeleteResource_log: "log (snd (DeleteResource i w)) = log w @ [MutateResourceDelete i]"
  and DeleteResource_script: "script (snd (DeleteResource i w)) = tl (script w)"
  and DeleteResource_ok: "(fst (DeleteResource i w) = None) = (\<not> delete_fails (next_outcome (script w)))"
  by (simp_all add: DeleteResource_eq Let_def delete_fails_def split: outcome.splits)

lemma length_outcomes: "length (outcomes n outs) = n"
  by (induction n arbitrary: outs) simp_all

lemma deleteLoop_live:
  "\<not> DryRun cfg \<Longrightarrow>
   deleteLoop cfg rs (d, e) w = ((d', e'), w') \<Longrightarrow>
     log w' = log w @ map (\<lambda>r. MutateResourceDelete (res_ID r)) rs
     \<and> d' = d + length (filter (\<lambda>out. \<not> delete_fails out) (outcomes (length rs) (script w)))
     \<and> e' = e + length (filter delete_fails (outcomes (length rs) (script w)))"
proof (induction rs arbitrary: d e w)
  case Nil
  then show ?case by simp
next
  case (Cons r rs)
  obtain res w1 where step: "DeleteResource (res_ID r) w = (res, w1)"
    by (cases "DeleteResource (res_ID r) w")
  have l1: "log w1 = log w @ [MutateResourceDelete (res_ID r)]"
    and s1: "script w1 = tl (script w)"
    and ok: "(res = None) = (\<not> delete_fails (next_outcome (script w)))"
    using step DeleteResource_log [of "res_ID r" w] DeleteResource_script [of "res_ID r" w]
      DeleteResource_ok [of "res_ID r" w] by simp_all
  show ?case
  proof (cases res)
    case None
    with Cons.prems step have "deleteLoop cfg rs (d + 1, e) w1 = ((d', e'), w')" by simp
    from Cons.IH [OF Cons.prems(1) this] None ok show ?thesis
      by (simp add: l1 s1)
  next
    case (Some err)
    with Cons.prems step have "deleteLoop cfg rs (d, e + 1) w1 = ((d', e'), w')" by simp
    from Cons.IH [OF Cons.prems(1) this] Some ok show ?thesis
      by (simp add: l1 s1)
  qed
qed

lemma deleteLoop_dry:
  "DryRun cfg \<Longrightarrow> deleteLoop cfg rs (d, e) w = ((d + length rs, e), w)"
  by (induction rs arbitrary: d) simp_all

lemma desiredNames_iff: "desiredNames ms n = (n \<in> Name ` set ms)"
proof -
  have "fold (\<lambda>mapping names. names(Name mapping := True)) ms f n = (f n \<or> n \<in> Name ` set ms)" for f
    by (induction ms arbitrary: f) auto
  then show ?thesis by (simp add: desiredNames_def)
qed

lemma deleteStaleResources_eq:
  "deleteStaleResources ms nid cfg w =
     (if next_outcome (script w) = Fail then ((0, 1), advance (QueryResources 100) w)
      else deleteLoop cfg
             (staleResources ms (filter (\<lambda>node. nid = [] \<or> res_RemoteNetworkID node = nid)
                (take 100 (resources w))))
             (0, 0) (advance (QueryResources 100) w))"
proof -
  have "deleteLoop cfg [] (0, 0) v = ((0, 0), v)" for v by simp
  then show ?thesis
    by (auto simp: deleteStaleResources_def GetResources_eq Let_def)
qed

section \<open>Cleanup\<close>

text \<open>
  Claim C4. For every desired mapping set and every state of the remote inventory, a
  cleanup with \<open>DryRun\<close> true issues no delete call, however many resources are stale:
  the only call it adds to the log is the listing query, and the inventory stays as it
  was. The deleted count it reports is the number of stale resources, the listed
  resources whose name is not the name of a desired mapping.
\<close>

theorem deleteStaleResources_dry_run:
  assumes "DryRun cfg"
  shows "(case deleteStaleResources ms nid cfg w of
            ((deleted, errors), w') \<Rightarrow>
              log w' = log w @ [QueryResources 100]
              \<and> resources w' = resources w \<and> networks w' = networks w
              \<and> deleted = length (filter (\<lambda>r. res_Name r \<notin> Name ` set ms)
                    (case fst (GetResources nid w) of Inl err \<Rightarrow> [] | Inr listed \<Rightarrow> listed)))"
  using assms
  by (simp add: deleteStaleResources_eq deleteLoop_dry GetResources_eq staleResources_def
      desiredNames_iff)

theorem deleteStaleResources_dry_run_witness:
  "DryRun \<lparr>Enabled = True, DryRun = True\<rparr>
   \<and> deleteStaleResources [example_mapping ''api.example.com''] ''net1''
        \<lparr>Enabled = True, DryRun = True\<rparr>
        (example_world [example_resource ''res1'' ''api.example.com'',
                        example_resource ''res2'' ''stale.example.com''] [])
     = ((1, 0),
        \<lparr>networks = [\<lparr>net_ID = ''net1'', net_Name = ''Caddy-Managed''\<rparr>],
         resources = [example_resource ''res1'' ''api.example.com'',
                      example_resource ''res2'' ''stale.example.com''],
         script = [], log = [QueryResources 100]\<rparr>)"
  using deleteStaleResources_dry_run [where cfg = "\<lparr>Enabled = True, DryRun = True\<rparr>"
      and ms = "[example_mapping ''api.example.com'']" and nid = "''net1''"
      and w = "example_world [example_resource ''res1'' ''api.example.com'',
                      example_resource ''res2'' ''stale.example.com''] []"]
  by (simp add: deleteStaleResources_eq staleResources_def desiredNames_def example_world_def
      example_resource_def example_mapping_def next_outcome_def advance_def)

text \<open>
  Claim C5, amended. The error count of a dry-run cleanup is not zero for every
  behaviour of the remote inventory. When the listing call fails,
  \<open>deleteStaleResources\<close> returns no deletion and one error, whatever \<open>DryRun\<close> is,
  and \<open>SyncResources\<close> adds that error to its aggregate: it reports the upsert errors
  and one delete error. When \<open>DryRun\<close> is true and the listing call succeeds, the
  result is the number of stale resources with zero errors, and the aggregate of
  \<open>SyncResources\<close> holds the upsert errors alone.
\<close>

theorem deleteStaleResources_dry_run_errors:
  "(isl (fst (GetResources nid w)) \<longrightarrow> fst (deleteStaleResources ms nid cfg w) = (0, 1))
   \<and> (DryRun cfg \<and> \<not> isl (fst (GetResources nid w)) \<longrightarrow>
        fst (deleteStaleResources ms nid cfg w)
          = (length (staleResources ms (projr (fst (GetResources nid w)))), 0))
   \<and> (ms \<noteq> [] \<and> Enabled cfg
        \<and> GetOrCreateRemoteNetwork (if name = [] then DefaultRemoteNetworkName else name) v
            = (Inr net, v1)
        \<and> upsertResources parseIP ms (net_ID net) v1 = ((s, e), v2)
        \<and> isl (fst (GetResources (net_ID net) v2)) \<longrightarrow>
        fst (SyncResources parseIP ms name (Some cfg) v) = Some (ErrSync (e + 1) e 1))
   \<and> (ms \<noteq> [] \<and> Enabled cfg \<and> DryRun cfg
        \<and> GetOrCreateRemoteNetwork (if name = [] then DefaultRemoteNetworkName else name) v
            = (Inr net, v1)
        \<and> upsertResources parseIP ms (net_ID net) v1 = ((s, e), v2)
        \<and> \<not> isl (fst (GetResources (net_ID net) v2)) \<longrightarrow>
        fst (SyncResources parseIP ms name (Some cfg) v)
          = (if 0 < e then Some (ErrSync e e 0) else None))"
proof -
  have failing: "fst (deleteStaleResources ms' nid' cfg w') = (0, 1)"
    if "isl (fst (GetResources nid' w'))" for ms' nid' w'
    using that by (simp add: deleteStaleResources_eq GetResources_eq split: if_splits)
  have dry: "fst (deleteStaleResources ms' nid' cfg w')
          = (length (staleResources ms' (projr (fst (GetResources nid' w')))), 0)"
    if "DryRun cfg" and "\<not> isl (fst (GetResources nid' w'))" for ms' nid' w'
    using that by (simp add: deleteStaleResources_eq deleteLoop_dry GetResources_eq split: if_splits)
  have sync: "fst (SyncResources parseIP ms name (Some cfg) v)
      = (if 0 < e + snd (fst (deleteStaleResources ms (net_ID net) cfg v2))
         then Some (ErrSync (e + snd (fst (deleteStaleResources ms (net_ID net) cfg v2))) e
                      (snd (fst (deleteStaleResources ms (net_ID net) cfg v2))))
         else None)"
    if "ms \<noteq> []" and "Enabled cfg"
      and "GetOrCreateRemoteNetwork (if name = [] then DefaultRemoteNetworkName else name) v
            = (Inr net, v1)"
      and "upsertResources parseIP ms (net_ID net) v1 = ((s, e), v2)"
    using that by (simp add: SyncResources_def Let_def split: prod.splits)
  show ?thesis
    using failing [of nid w ms] dry [of nid w ms] sync failing [of "net_ID net" v2 ms]
      dry [of "net_ID net" v2 ms]
    by simp
qed

theorem deleteStaleResources_dry_run_errors_witness:
  "isl (fst (GetResources ''net1''
        (example_world [example_resource ''res1'' ''api.example.com'',
                        example_resource ''res2'' ''stale.example.com''] [Fail])))
   \<and> fst (deleteStaleResources [example_mapping ''api.example.com''] ''net1''
        \<lparr>Enabled = True, DryRun = False\<rparr>
        (example_world [example_resource ''res1'' ''api.example.com'',
                        example_resource ''res2'' ''stale.example.com''] [Fail])) = (0, 1)
   \<and> DryRun \<lparr>Enabled = True, DryRun = True\<rparr>
   \<and> \<not> isl (fst (GetResources ''net1''
        (example_world [example_resource ''res1'' ''api.example.com'',
                        example_resource ''res2'' ''stale.example.com''] [])))
   \<and> fst (deleteStaleResources [example_mapping ''api.example.com''] ''net1''
        \<lparr>Enabled = True, DryRun = True\<rparr>
        (example_world [example_resource ''res1'' ''api.example.com'',
                        example_resource ''res2'' ''stale.example.com''] [])) = (1, 0)
   \<and> fst (SyncResources example_parseIP [example_mapping ''api.example.com''] []
        (Some \<lparr>Enabled = True, DryRun = False\<rparr>)
        (example_world [example_resource ''res1'' ''api.example.com'',
                        example_resource ''res2'' ''stale.example.com''] [Ok, Ok, Fail]))
     = Some (ErrSync 1 0 1)
   \<and> fst (SyncResources example_parseIP [example_mapping ''api.example.com''] []
        (Some \<lparr>Enabled = True, DryRun = True\<rparr>)
        (example_world [example_resource ''res1'' ''api.example.com'',
                        example_resource ''res2'' ''stale.example.com''] []))
     = None"
proof -
  let ?m = "example_mapping ''api.example.com''"
  let ?rs = "[example_resource ''res1'' ''api.example.com'',
              example_resource ''res2'' ''stale.example.com'']"
  let ?net = "example_network ''net1'' ''Caddy-Managed''"
  have get: "GetOrCreateRemoteNetwork (if [] = [] then DefaultRemoteNetworkName else []) (example_world ?rs outs)
      = (Inr ?net, advance (QueryRemoteNetworks 100) (example_world ?rs outs))"
    if "next_outcome outs \<noteq> Fail" for outs
    using that
    by (simp add: GetOrCreateRemoteNetwork_def GetRemoteNetworkByName_def GetRemoteNetworks_def
        Query_remoteNetworks_def respond_def DefaultRemoteNetworkName_def example_defs
        example_network_def)
  have up: "upsertResources example_parseIP [?m] (net_ID ?net)
        (advance (QueryRemoteNetworks 100) (example_world ?rs outs))
      = ((1, 0), advance (QueryResources 100)
           (advance (QueryRemoteNetworks 100) (example_world ?rs outs)))"
    if "next_outcome (tl outs) \<noteq> Fail" for outs
    using that
    by (simp add: upsertResources_def syncSingleResource_def validateMapping_def GetResources_eq
        updateExistingResource_def orEmpty_def example_defs example_network_def Let_def)
  have g1: "next_outcome [Ok, Ok, Fail] \<noteq> Fail" "next_outcome (tl [Ok, Ok, Fail]) \<noteq> Fail"
    "next_outcome [] \<noteq> Fail" "next_outcome (tl []) \<noteq> Fail"
    by (simp_all add: next_outcome_def)
  from deleteStaleResources_dry_run_errors [where cfg = "\<lparr>Enabled = True, DryRun = False\<rparr>"
      and ms = "[?m]" and nid = "''net1''" and w = "example_world ?rs [Fail]"
      and name = "[]" and parseIP = example_parseIP and v = "example_world ?rs [Ok, Ok, Fail]"
      and net = ?net and ?v1.0 = "advance (QueryRemoteNetworks 100) (example_world ?rs [Ok, Ok, Fail])"
      and s = 1 and e = 0
      and ?v2.0 = "advance (QueryResources 100)
           (advance (QueryRemoteNetworks 100) (example_world ?rs [Ok, Ok, Fail]))"]
    deleteStaleResources_dry_run_errors [where cfg = "\<lparr>Enabled = True, DryRun = True\<rparr>"
      and ms = "[?m]" and nid = "''net1''" and w = "example_world ?rs []"
      and name = "[]" and parseIP = example_parseIP and v = "example_world ?rs []"
      and net = ?net and ?v1.0 = "advance (QueryRemoteNetworks 100) (example_world ?rs [])"
      and s = 1 and e = 0
      and ?v2.0 = "advance (QueryResources 100)
           (advance (QueryRemoteNetworks 100) (example_world ?rs []))"]
    get [OF g1(1)] up [OF g1(2)] get [OF g1(3)] up [OF g1(4)]
  show ?thesis
    by (simp add: GetResources_eq staleResources_def desiredNames_def example_defs
        example_network_def next_outcome_def)
qed

theorem dry_run_listing_failure_counterexample:
  "DryRun \<lparr>Enabled = True, DryRun = True\<rparr>
   \<and> fst (deleteStaleResources [example_mapping ''api.example.com''] ''net1''
        \<lparr>Enabled = True, DryRun = True\<rparr> (example_world [] [Fail])) = (0, 1)
   \<and> fst (SyncResources example_parseIP [example_mapping ''api.example.com''] []
        (Some \<lparr>Enabled = True, DryRun = True\<rparr>)
        (example_world [example_resource ''res1'' ''api.example.com''] [Ok, Ok, Fail]))
     = Some (ErrSync 1 0 1)"
  by (simp add: deleteStaleResources_eq SyncResources_def GetOrCreateRemoteNetwork_def
      GetRemoteNetworkByName_def GetRemoteNetworks_def Query_remoteNetworks_def respond_def
      upsertResources_def syncSingleResource_def validateMapping_def GetResources_eq
      updateExistingResource_def orEmpty_def DefaultRemoteNetworkName_def
      example_defs next_outcome_def advance_def Let_def)

text \<open>
  Claim C6. For every set of stale resources, a failing delete call does not stop the
  cleanup loop: with \<open>DryRun\<close> false and a listing that succeeds, one delete call is
  issued for every stale resource, in order, whatever the outcomes of the earlier ones;
  the deleted count is the number of calls that succeed and the error count the number
  that fail, so the two add up to the number of stale resources. With three stale
  resources and one failing delete the result is two deleted and one error.
\<close>

theorem deleteStaleResources_partial_failure:
  assumes "\<not> DryRun cfg" and "fst (GetResources nid w) = Inr existing"
  shows "(case deleteStaleResources ms nid cfg w of
            ((deleted, errors), w') \<Rightarrow>
              (let stale = staleResources ms existing;
                   outs = outcomes (length stale) (tl (script w))
               in log w' = log w @ QueryResources 100 # map (\<lambda>r. MutateResourceDelete (res_ID r)) stale
                  \<and> deleted = length (filter (\<lambda>out. \<not> delete_fails out) outs)
                  \<and> errors = length (filter delete_fails outs)
                  \<and> deleted + errors = length stale))"
proof -
  let ?w1 = "advance (QueryResources 100) w"
  let ?stale = "staleResources ms existing"
  from assms(2) have ok: "next_outcome (script w) \<noteq> Fail"
    and ex: "existing = filter (\<lambda>node. nid = [] \<or> res_RemoteNetworkID node = nid) (take 100 (resources w))"
    by (auto simp: GetResources_eq split: if_splits)
  obtain d e w' where run: "deleteLoop cfg ?stale (0, 0) ?w1 = ((d, e), w')"
    by (metis surj_pair)
  from deleteLoop_live [OF assms(1) run]
  have facts: "log w' = log ?w1 @ map (\<lambda>r. MutateResourceDelete (res_ID r)) ?stale"
    "d = length (filter (\<lambda>out. \<not> delete_fails out) (outcomes (length ?stale) (script ?w1)))"
    "e = length (filter delete_fails (outcomes (length ?stale) (script ?w1)))"
    by simp_all
  have total: "d + e = length ?stale"
    unfolding facts
    using sum_length_filter_compl [of "\<lambda>out. \<not> delete_fails out" "outcomes (length ?stale) (script ?w1)"]
    by (simp add: length_outcomes)
  from ok ex run facts total show ?thesis
    by (simp add: deleteStaleResources_eq Let_def)
qed

theorem deleteStaleResources_partial_failure_witness:
  "\<not> DryRun \<lparr>Enabled = True, DryRun = False\<rparr>
   \<and> fst (GetResources ''net1''
        (example_world [example_resource ''res1'' ''stale1.example.com'',
                        example_resource ''res2'' ''stale2.example.com'',
                        example_resource ''res3'' ''stale3.example.com'']
           [Ok, Ok, NotOk None, Ok]))
     = Inr [example_resource ''res1'' ''stale1.example.com'',
            example_resource ''res2'' ''stale2.example.com'',
            example_resource ''res3'' ''stale3.example.com'']
   \<and> fst (deleteStaleResources [] ''net1'' \<lparr>Enabled = True, DryRun = False\<rparr>
        (example_world [example_resource ''res1'' ''stale1.example.com'',
                        example_resource ''res2'' ''stale2.example.com'',
                        example_resource ''res3'' ''stale3.example.com'']
           [Ok, Ok, NotOk None, Ok]))
     = (2, 1)
   \<and> log (snd (deleteStaleResources [] ''net1'' \<lparr>Enabled = True, DryRun = False\<rparr>
        (example_world [example_resource ''res1'' ''stale1.example.com'',
                        example_resource ''res2'' ''stale2.example.com'',
                        example_resource ''res3'' ''stale3.example.com'']
           [Ok, Ok, NotOk None, Ok])))
     = [QueryResources 100, MutateResourceDelete ''res1'', MutateResourceDelete ''res2'',
        MutateResourceDelete ''res3'']"
  using deleteStaleResources_partial_failure [where cfg = "\<lparr>Enabled = True, DryRun = False\<rparr>"
      and nid = "''net1''" and ms = "[]"
      and existing = "[example_resource ''res1'' ''stale1.example.com'',
            example_resource ''res2'' ''stale2.example.com'',
            example_resource ''res3'' ''stale3.example.com'']"
      and w = "example_world [example_resource ''res1'' ''stale1.example.com'',
                        example_resource ''res2'' ''stale2.example.com'',
                        example_resource ''res3'' ''stale3.example.com'']
           [Ok, Ok, NotOk None, Ok]"]
  by (simp add: GetResources_eq staleResources_def desiredNames_def example_defs
      next_outcome_def delete_fails_def Let_def numeral_3_eq_3 split: prod.splits)

section \<open>Listing the inventory\<close>

lemma GetRemoteNetworks_eq:
  "GetRemoteNetworks w =
     (if next_outcome (script w) = Fail
      then Inl (ErrWrap ''failed to query remote networks'' ErrTransport)
      else Inr (take 100 (networks w)),
      advance (QueryRemoteNetworks 100) w)"
  by (simp add: GetRemoteNetworks_def Query_remoteNetworks_def respond_def)

lemma GetRemoteNetworkByName_eq:
  "GetRemoteNetworkByName name w =
     (if next_outcome (script w) = Fail
      then Inl (ErrWrap ''failed to query remote networks'' ErrTransport)
      else Inr (find (\<lambda>network. net_Name network = name) (take 100 (networks w))),
      advance (QueryRemoteNetworks 100) w)"
  by (simp add: GetRemoteNetworkByName_def GetRemoteNetworks_eq)

lemma find_replicate: "find P (replicate n x) = (if 0 < n \<and> P x then Some x else None)"
  by (induction n) auto

text \<open>
  Claim C3, amended. The listing operations do not exhaust pagination: each issues
  exactly one query, for the first 100 entries, and no other call. When the query
  succeeds, \<open>GetRemoteNetworks\<close> returns the first 100 networks of the inventory and
  \<open>GetResources\<close> returns the resources of the target network among the first 100
  resources of the whole inventory. So \<open>GetRemoteNetworks\<close> returns the complete
  inventory exactly when it holds at most 100 networks, and \<open>GetResources\<close> returns
  every resource of the target network exactly when none of them is listed after the
  first 100 resources, as is the case when the inventory holds at most 100 resources.
\<close>

theorem listing_single_page:
  "GetRemoteNetworks w
     = (if next_outcome (script w) = Fail
        then Inl (ErrWrap ''failed to query remote networks'' ErrTransport)
        else Inr (take 100 (networks w)),
        advance (QueryRemoteNetworks 100) w)
   \<and> GetResources nid w
     = (if next_outcome (script w) = Fail
        then Inl (ErrWrap ''failed to query resources'' ErrTransport)
        else Inr (filter (\<lambda>r. nid = [] \<or> res_RemoteNetworkID r = nid) (take 100 (resources w))),
        advance (QueryResources 100) w)
   \<and> new_calls w (snd (GetRemoteNetworks w)) = [QueryRemoteNetworks 100]
   \<and> new_calls w (snd (GetResources nid w)) = [QueryResources 100]
   \<and> (next_outcome (script w) \<noteq> Fail \<longrightarrow>
        (fst (GetRemoteNetworks w) = Inr (networks w)) = (length (networks w) \<le> 100))
   \<and> (next_outcome (script w) \<noteq> Fail \<longrightarrow>
        (fst (GetResources nid w)
           = Inr (filter (\<lambda>r. nid = [] \<or> res_RemoteNetworkID r = nid) (resources w)))
        = (filter (\<lambda>r. nid = [] \<or> res_RemoteNetworkID r = nid) (drop 100 (resources w)) = []))
   \<and> (next_outcome (script w) \<noteq> Fail \<and> length (resources w) \<le> 100 \<longrightarrow>
        fst (GetResources nid w)
          = Inr (filter (\<lambda>r. nid = [] \<or> res_RemoteNetworkID r = nid) (resources w)))"
proof -
  let ?P = "\<lambda>r. nid = [] \<or> res_RemoteNetworkID r = nid"
  have "filter ?P (resources w) = filter ?P (take 100 (resources w)) @ filter ?P (drop 100 (resources w))"
    by (metis append_take_drop_id filter_append)
  then have page: "(filter ?P (take 100 (resources w)) = filter ?P (resources w))
      = (filter ?P (drop 100 (resources w)) = [])"
    by (metis append_self_conv)
  have nets: "(take 100 (networks w) = networks w) = (length (networks w) \<le> 100)"
    by (simp add: take_all_iff)
  show ?thesis
    using page nets by (simp add: GetRemoteNetworks_eq GetResources_eq new_calls_def)
qed

theorem listing_single_page_witness:
  "next_outcome (script (example_world [example_resource ''res1'' ''api.example.com'',
        example_resource ''res2'' ''stale.example.com''] [])) \<noteq> Fail
   \<and> length (networks (example_world [example_resource ''res1'' ''api.example.com'',
        example_resource ''res2'' ''stale.example.com''] [])) \<le> 100
   \<and> length (resources (example_world [example_resource ''res1'' ''api.example.com'',
        example_resource ''res2'' ''stale.example.com''] [])) \<le> 100
   \<and> fst (GetRemoteNetworks (example_world [example_resource ''res1'' ''api.example.com'',
        example_resource ''res2'' ''stale.example.com''] []))
     = Inr [\<lparr>net_ID = ''net1'', net_Name = ''Caddy-Managed''\<rparr>]
   \<and> fst (GetResources ''net1'' (example_world [example_resource ''res1'' ''api.example.com'',
        example_resource ''res2'' ''stale.example.com''] []))
     = Inr [example_resource ''res1'' ''api.example.com'',
            example_resource ''res2'' ''stale.example.com'']
   \<and> log (snd (GetResources ''net1'' (example_world [example_resource ''res1'' ''api.example.com'',
        example_resource ''res2'' ''stale.example.com''] [])))
     = [QueryResources 100]
   \<and> next_outcome (script crowded_world) \<noteq> Fail
   \<and> fst (GetRemoteNetworks crowded_world) \<noteq> Inr (networks crowded_world)
   \<and> fst (GetResources ''net0'' crowded_world)
     = Inr (filter (\<lambda>r. res_RemoteNetworkID r = ''net0'') (resources crowded_world))"
  using listing_single_page [where w = "example_world [example_resource ''res1'' ''api.example.com'',
        example_resource ''res2'' ''stale.example.com''] []" and nid = "''net1''"]
    listing_single_page [where w = crowded_world and nid = "''net0''"]
  by (simp add: example_defs next_outcome_def crowded_world_def example_network_def new_calls_def)

theorem listing_truncated_counterexample:
  "length (networks crowded_world) = 101
   \<and> fst (GetRemoteNetworks crowded_world) \<noteq> Inr (networks crowded_world)
   \<and> fst (GetRemoteNetworkByName ''Caddy-Managed'' crowded_world) = Inr None
   \<and> example_resource ''res1'' ''api.example.com'' \<in> set (resources crowded_world)
   \<and> fst (GetResources ''net1'' crowded_world) = Inr []"
  by (simp add: crowded_world_def GetRemoteNetworks_eq GetRemoteNetworkByName_eq GetResources_eq
      next_outcome_def find_replicate example_network_def example_resource_def)

section \<open>The upsert pass\<close>

lemma new_calls_append: "log w' = log w @ cs \<Longrightarrow> new_calls w w' = cs"
  by (simp add: new_calls_def)

lemma mutate_log:
  "(\<And>v. log (ap v) = log v) \<Longrightarrow> log (snd (mutate c ap ent w)) = log w @ [c]"
  by (simp add: mutate_def respond_def split: outcome.splits)

lemma CreateRemoteNetwork_world:
  "snd (CreateRemoteNetwork name w) = snd (Mutate_remoteNetworkCreate name w)"
  by (simp add: CreateRemoteNetwork_def split: prod.splits sum.splits option.splits)

lemma CreateResource_world:
  "snd (CreateResource input w)
     = snd (Mutate_resourceCreate (ci_Name input) (ci_Address input) (ci_RemoteNetworkID input)
              (ci_Alias input) w)"
  by (simp add: CreateResource_def split: prod.splits sum.splits option.splits)

lemma UpdateResource_world:
  "snd (UpdateResource input w)
     = snd (Mutate_resourceUpdate (ui_ID input) (orEmpty (ui_Name input))
              (orEmpty (ui_Address input)) (orEmpty (ui_Alias input)) w)"
  by (simp add: UpdateResource_def split: prod.splits sum.splits option.splits)

lemma CreateRemoteNetwork_log:
  "log (snd (CreateRemoteNetwork name w)) = log w @ [MutateRemoteNetworkCreate name]"
  by (simp add: CreateRemoteNetwork_world Mutate_remoteNetworkCreate_def Let_def mutate_log)

lemma CreateResource_log:
  "log (snd (CreateResource input w))
     = log w @ [MutateResourceCreate (ci_Name input) (ci_Address input)
                  (ci_RemoteNetworkID input) (ci_Alias input)]"
  by (simp add: CreateResource_world Mutate_resourceCreate_def Let_def mutate_log)

lemma UpdateResource_log:
  "log (snd (UpdateResource input w))
     = log w @ [MutateResourceUpdate (ui_ID input) (orEmpty (ui_Name input))
                  (orEmpty (ui_Address input)) (orEmpty (ui_Alias input))]"
  by (simp add: UpdateResource_world Mutate_resourceUpdate_def mutate_log)

lemma updateExistingResource_unchanged:
  "up_to_date m e \<Longrightarrow> updateExistingResource m e w = (None, w)"
  by (simp add: updateExistingResource_def up_to_date_def Let_def)

lemma updateExistingResource_log:
  "\<not> up_to_date m e \<Longrightarrow>
   log (snd (updateExistingResource m e w))
     = log w @ [MutateResourceUpdate (res_ID e)
                  (if res_Name e \<noteq> Name m then Name m else res_Name e)
                  (if res_Address e \<noteq> Address m then Address m else res_Address e)
                  (if orEmpty (res_Alias e) \<noteq> orEmpty (Alias m) then orEmpty (Alias m)
                   else orEmpty (res_Alias e))]"
proof -
  assume "\<not> up_to_date m e"
  then have "updateExistingResource m e w =
     (case UpdateResource \<lparr>ui_ID = res_ID e,
              ui_Name = Some (if res_Name e \<noteq> Name m then Name m else res_Name e),
              ui_Address = Some (if res_Address e \<noteq> Address m then Address m else res_Address e),
              ui_Alias = (if orEmpty (res_Alias e) \<noteq> orEmpty (Alias m) then Alias m else res_Alias e)\<rparr> w of
        (Inl err, w') \<Rightarrow> (Some (ErrWrap ''failed to update resource'' err), w')
      | (Inr resource, w') \<Rightarrow> (None, w'))"
    by (auto simp: updateExistingResource_def up_to_date_def Let_def)
  then show ?thesis
    using UpdateResource_log [of "\<lparr>ui_ID = res_ID e,
              ui_Name = Some (if res_Name e \<noteq> Name m then Name m else res_Name e),
              ui_Address = Some (if res_Address e \<noteq> Address m then Address m else res_Address e),
              ui_Alias = (if orEmpty (res_Alias e) \<noteq> orEmpty (Alias m) then Alias m else res_Alias e)\<rparr>" w]
    by (auto simp: orEmpty_def split: prod.splits sum.splits)
qed

lemma syncSingleResource_in_sync:
  assumes "validateMapping parseIP m = None"
    and "lookupExisting m (visible nid w) = Some e"
    and "up_to_date m e"
  shows "syncSingleResource parseIP m nid w =
           (if next_outcome (script w) = Fail
            then Some (ErrWrap (if Alias m = None then ''failed to list resources''
                                else ''failed to check for existing resource'')
                         (ErrWrap ''failed to query resources'' ErrTransport))
            else None,
            advance (QueryResources 100) w)"
proof (cases "Alias m")
  case None
  with assms show ?thesis
    by (simp add: syncSingleResource_def GetResources_eq lookupExisting_def visible_def
        updateExistingResource_unchanged)
next
  case (Some a)
  with assms show ?thesis
    by (simp add: syncSingleResource_def GetResourceByAlias_def GetResources_eq
        lookupExisting_def visible_def updateExistingResource_unchanged)
qed

lemma in_sync_Cons:
  "in_sync parseIP nid (m # ms) w =
     ((validateMapping parseIP m = None
       \<and> (\<exists>e. lookupExisting m (visible nid w) = Some e \<and> up_to_date m e))
      \<and> in_sync parseIP nid ms w)"
  by (auto simp: in_sync_def split: option.splits)

lemma in_sync_advance:
  "in_sync parseIP nid ms (advance c w) = in_sync parseIP nid ms w"
  by (simp add: in_sync_def visible_def)

lemma upsertLoop_in_sync:
  "in_sync parseIP nid ms w \<Longrightarrow>
   upsertLoop parseIP ms nid (s, e) w = ((s', e'), w') \<Longrightarrow>
     log w' = log w @ replicate (length ms) (QueryResources 100)
     \<and> resources w' = resources w \<and> networks w' = networks w
     \<and> s' = s + length (filter (\<lambda>out. out \<noteq> Fail) (outcomes (length ms) (script w)))
     \<and> e' = e + length (filter (\<lambda>out. out = Fail) (outcomes (length ms) (script w)))"
proof (induction ms arbitrary: s e w)
  case Nil
  then show ?case by simp
next
  case (Cons m ms)
  let ?w1 = "advance (QueryResources 100) w"
  from Cons.prems(1) obtain x where m: "validateMapping parseIP m = None"
    "lookupExisting m (visible nid w) = Some x" "up_to_date m x"
    and rest: "in_sync parseIP nid ms w"
    by (auto simp: in_sync_Cons)
  note step = syncSingleResource_in_sync [OF m]
  from rest have rest1: "in_sync parseIP nid ms ?w1"
    by (simp add: in_sync_advance)
  show ?case
  proof (cases "next_outcome (script w) = Fail")
    case True
    with Cons.prems(2) step have "upsertLoop parseIP ms nid (s, e + 1) ?w1 = ((s', e'), w')"
      by simp
    from Cons.IH [OF rest1 this] True show ?thesis
      by (simp add: replicate_append_same)
  next
    case False
    with Cons.prems(2) step have "upsertLoop parseIP ms nid (s + 1, e) ?w1 = ((s', e'), w')"
      by simp
    from Cons.IH [OF rest1 this] False show ?thesis
      by (simp add: replicate_append_same)
  qed
qed

lemma deleteStaleResources_calls:
  "\<exists>cs. log (snd (deleteStaleResources ms nid cfg w)) = log w @ cs
        \<and> list_all (\<lambda>c. \<not> is_create_or_update c) cs"
proof (cases "next_outcome (script w) = Fail")
  case True
  then show ?thesis
    by (simp add: deleteStaleResources_eq is_create_or_update_def)
next
  case False
  let ?w1 = "advance (QueryResources 100) w"
  let ?stale = "staleResources ms (filter (\<lambda>node. nid = [] \<or> res_RemoteNetworkID node = nid)
                (take 100 (resources w)))"
  show ?thesis
  proof (cases "DryRun cfg")
    case True
    with False show ?thesis
      by (simp add: deleteStaleResources_eq deleteLoop_dry is_create_or_update_def)
  next
    case live: False
    obtain d e w' where run: "deleteLoop cfg ?stale (0, 0) ?w1 = ((d, e), w')"
      by (metis surj_pair)
    from deleteLoop_live [OF live run]
    have "log w' = log w @ QueryResources 100 # map (\<lambda>r. MutateResourceDelete (res_ID r)) ?stale"
      by simp
    moreover have "list_all (\<lambda>c. \<not> is_create_or_update c)
        (QueryResources 100 # map (\<lambda>r. MutateResourceDelete (res_ID r)) ?stale)"
      by (simp add: is_create_or_update_def list_all_iff)
    ultimately show ?thesis
      using False run by (simp add: deleteStaleResources_eq)
  qed
qed

lemma SyncResources_in_sync:
  assumes net: "find (\<lambda>network. net_Name network
                   = (if name = [] then DefaultRemoteNetworkName else name))
                 (take 100 (networks w)) = Some net"
    and sync: "in_sync parseIP (net_ID net) ms w"
  shows "list_all (\<lambda>c. \<not> is_create_or_update c)
           (new_calls w (snd (SyncResources parseIP ms name cfg w)))"
proof (cases "ms = [] \<or> next_outcome (script w) = Fail")
  case True
  then show ?thesis
    by (auto simp: SyncResources_def new_calls_def GetOrCreateRemoteNetwork_def
        GetRemoteNetworkByName_eq is_create_or_update_def Let_def)
next
  case False
  let ?w1 = "advance (QueryRemoteNetworks 100) w"
  let ?nid = "net_ID net"
  have get: "GetOrCreateRemoteNetwork (if name = [] then DefaultRemoteNetworkName else name) w
             = (Inr net, ?w1)"
    using False net by (simp add: GetOrCreateRemoteNetwork_def GetRemoteNetworkByName_eq)
  obtain s e w2 where up: "upsertLoop parseIP ms ?nid (0, 0) ?w1 = ((s, e), w2)"
    by (metis surj_pair)
  from sync have "in_sync parseIP ?nid ms ?w1" by (simp add: in_sync_advance)
  from upsertLoop_in_sync [OF this up]
  have l2: "log w2 = log w @ QueryRemoteNetworks 100 # replicate (length ms) (QueryResources 100)"
    by simp
  define w3 where "w3 = (case cfg of None \<Rightarrow> w2
      | Some c \<Rightarrow> if Enabled c then snd (deleteStaleResources ms ?nid c w2) else w2)"
  have "\<exists>cs. log w3 = log w2 @ cs \<and> list_all (\<lambda>c. \<not> is_create_or_update c) cs"
    using deleteStaleResources_calls [of ms ?nid _ w2]
    by (auto simp: w3_def split: option.splits)
  then obtain cs where l3: "log w3 = log w2 @ cs"
    and cs: "list_all (\<lambda>c. \<not> is_create_or_update c) cs" by blast
  have final: "snd (SyncResources parseIP ms name cfg w) = w3"
    using False get up
    by (simp add: SyncResources_def upsertResources_def w3_def Let_def
        split: option.splits prod.splits)
  have "list_all (\<lambda>c. \<not> is_create_or_update c)
          (QueryRemoteNetworks 100 # replicate (length ms) (QueryResources 100))"
    by (simp add: is_create_or_update_def list_all_iff)
  with cs show ?thesis
    by (simp add: final new_calls_def l3 l2)
qed

text \<open>
  What a successful upsert step, a successful cleanup and a successful network resolution
  leave in the inventory, and why a second run then finds every mapping up to date.
\<close>

lemma fold_max_ge: "(x::nat) \<in> set xs \<Longrightarrow> x \<le> fold max xs a"
proof (induction xs arbitrary: a)
  case Nil
  then show ?case by simp
next
  case (Cons y ys)
  have mono: "b \<le> fold max ys b" for b :: nat
    by (induction ys arbitrary: b) (auto intro: le_trans [OF max.cobounded2])
  show ?case
  proof (cases "x = y")
    case True
    then show ?thesis using mono [of "max y a"] by simp
  next
    case False
    with Cons show ?thesis by simp
  qed
qed

lemma fresh_id_new: "r \<in> set (resources w) \<Longrightarrow> res_ID r \<noteq> fresh_id w"
proof
  assume r: "r \<in> set (resources w)" and eq: "res_ID r = fresh_id w"
  let ?lens = "map (\<lambda>n. length (net_ID n)) (networks w) @ map (\<lambda>r. length (res_ID r)) (resources w)"
  from r have "length (res_ID r) \<in> set ?lens" by auto
  then have "length (res_ID r) \<le> fold max ?lens 0" by (rule fold_max_ge)
  moreover have "length (fresh_id w) = 3 + Suc (fold max ?lens 0)"
    by (simp add: fresh_id_def)
  ultimately show False using eq by simp
qed

lemma fresh_id_advance: "fresh_id (advance c w) = fresh_id w"
  by (simp add: fresh_id_def)

lemma CreateResource_success:
  assumes "CreateResource input w = (Inr r, w')"
  shows "resources w' = resources w
           @ [\<lparr>res_ID = fresh_id w, res_Name = ci_Name input, res_Address = ci_Address input,
               res_Alias = alias_of_string (ci_Alias input),
               res_RemoteNetworkID = ci_RemoteNetworkID input\<rparr>]
         \<and> networks w' = networks w"
  using assms
  by (auto simp: CreateResource_def Mutate_resourceCreate_def mutate_def respond_def Let_def
      split: outcome.splits if_splits option.splits)

lemma UpdateResource_success:
  assumes "UpdateResource input w = (Inr r, w')"
  shows "resources w' = map (\<lambda>r. if res_ID r = ui_ID input
                         then r\<lparr>res_Name := orEmpty (ui_Name input),
                                res_Address := orEmpty (ui_Address input),
                                res_Alias := alias_of_string (orEmpty (ui_Alias input))\<rparr>
                         else r) (resources w)
         \<and> networks w' = networks w"
  using assms
  by (auto simp: UpdateResource_def Mutate_resourceUpdate_def mutate_def respond_def Let_def
      split: outcome.splits if_splits option.splits)

lemma createNewResource_success:
  assumes "createNewResource m nid w = (None, w')"
  shows "resources w' = resources w @ [created m (fresh_id w) nid] \<and> networks w' = networks w"
proof -
  let ?input = "\<lparr>ci_Name = Name m, ci_Address = Address m, ci_RemoteNetworkID = nid,
                  ci_Alias = orEmpty (Alias m)\<rparr>"
  from assms obtain r where "CreateResource ?input w = (Inr r, w')"
    by (auto simp: createNewResource_def Let_def split: prod.splits sum.splits)
  from CreateResource_success [OF this] show ?thesis by (simp add: created_def)
qed

lemma updateExistingResource_success:
  assumes "updateExistingResource m x w = (None, w')"
  shows "(if up_to_date m x then resources w' = resources w
          else resources w' = map (\<lambda>r. if res_ID r = res_ID x then updated m r else r) (resources w))
         \<and> networks w' = networks w"
proof (cases "up_to_date m x")
  case True
  with assms show ?thesis by (simp add: updateExistingResource_unchanged)
next
  case False
  let ?input = "\<lparr>ui_ID = res_ID x,
              ui_Name = Some (if res_Name x \<noteq> Name m then Name m else res_Name x),
              ui_Address = Some (if res_Address x \<noteq> Address m then Address m else res_Address x),
              ui_Alias = (if orEmpty (res_Alias x) \<noteq> orEmpty (Alias m) then Alias m else res_Alias x)\<rparr>"
  from False have eq: "updateExistingResource m x w =
     (case UpdateResource ?input w of
        (Inl err, w') \<Rightarrow> (Some (ErrWrap ''failed to update resource'' err), w')
      | (Inr resource, w') \<Rightarrow> (None, w'))"
    by (auto simp: updateExistingResource_def up_to_date_def Let_def)
  with assms obtain r where "UpdateResource ?input w = (Inr r, w')"
    by (auto split: prod.splits sum.splits)
  from UpdateResource_success [OF this]
  have "resources w' = map (\<lambda>r. if res_ID r = res_ID x then updated m r else r) (resources w)"
    and "networks w' = networks w"
    by (auto simp: updated_def orEmpty_def split: option.splits)
  with False show ?thesis by simp
qed

lemma syncSingleResource_success:
  assumes "syncSingleResource parseIP m nid w = (None, w')"
  shows "validateMapping parseIP m = None \<and> networks w' = networks w
    \<and> (case lookupExisting m (visible nid w) of
         Some x \<Rightarrow>
           if up_to_date m x then resources w' = resources w
           else resources w' = map (\<lambda>r. if res_ID r = res_ID x then updated m r else r) (resources w)
       | None \<Rightarrow> resources w' = resources w @ [created m (fresh_id w) nid])"
proof -
  let ?w1 = "advance (QueryResources 100) w"
  from assms have valid: "validateMapping parseIP m = None"
    by (auto simp: syncSingleResource_def split: option.splits)
  from assms valid have ok: "next_outcome (script w) \<noteq> Fail"
    by (auto simp: syncSingleResource_def GetResourceByAlias_def GetResources_eq
        split: option.splits if_splits)
  from assms valid ok have step:
    "(case lookupExisting m (visible nid w) of
        Some x \<Rightarrow> updateExistingResource m x ?w1
      | None \<Rightarrow> createNewResource m nid ?w1) = (None, w')"
    by (auto simp: syncSingleResource_def GetResourceByAlias_def GetResources_eq
        lookupExisting_def visible_def split: option.splits)
  show ?thesis
  proof (cases "lookupExisting m (visible nid w)")
    case None
    with step have "createNewResource m nid ?w1 = (None, w')" by simp
    from createNewResource_success [OF this] None valid show ?thesis
      by (simp add: fresh_id_advance)
  next
    case (Some x)
    with step have "updateExistingResource m x ?w1 = (None, w')" by simp
    from updateExistingResource_success [OF this] Some valid show ?thesis
      by (simp split: if_splits)
  qed
qed

lemma lookupExisting_find: "lookupExisting m rs = find (key_match m) rs"
  by (cases "Alias m") (simp_all add: lookupExisting_def key_match_def [abs_def])

lemma in_sync_synced:
  "in_sync parseIP nid ms w
     = list_all (\<lambda>m. validateMapping parseIP m = None \<and> synced m (visible nid w)) ms"
  by (simp add: in_sync_def synced_def lookupExisting_find)

lemma visible_page:
  "length (resources w) \<le> 100 \<Longrightarrow> visible nid w = filter (in_network nid) (resources w)"
  by (simp add: visible_def in_network_def [abs_def])

lemma find_SomeE: "find P xs = Some x \<Longrightarrow> x \<in> set xs \<and> P x"
  by (induction xs) (auto split: if_splits)

lemma find_map_keep:
  "find P vs = Some y \<Longrightarrow> f y = y \<Longrightarrow> (\<And>r. r \<in> set vs \<Longrightarrow> P (f r) \<Longrightarrow> P r)
     \<Longrightarrow> find P (map f vs) = Some y"
  by (induction vs) (auto split: if_splits)

lemma find_map_moved:
  "find P vs = Some x \<Longrightarrow> (\<And>r. r \<in> set vs \<Longrightarrow> r \<noteq> x \<Longrightarrow> f r = r) \<Longrightarrow> P (f x)
     \<Longrightarrow> find P (map f vs) = Some (f x)"
proof (induction vs)
  case Nil
  then show ?case by simp
next
  case (Cons a vs)
  show ?case
  proof (cases "P a")
    case True
    with Cons.prems show ?thesis by simp
  next
    case False
    with Cons.prems(1) have rest: "find P vs = Some x" by simp
    from find_SomeE [OF rest] False have "a \<noteq> x" by auto
    with Cons.prems(2) have "f a = a" by simp
    with False Cons.IH [OF rest] Cons.prems(2,3) show ?thesis by simp
  qed
qed

lemma find_filter_keep:
  "find P vs = Some y \<Longrightarrow> Q y \<Longrightarrow> find P (filter Q vs) = Some y"
  by (induction vs) (auto split: if_splits)

lemma find_snoc:
  "find P (vs @ [c]) = (case find P vs of Some x \<Rightarrow> Some x | None \<Rightarrow> if P c then Some c else None)"
  by (induction vs) auto

lemma same_id_same_resource:
  "distinct (map res_ID rs) \<Longrightarrow> r \<in> set rs \<Longrightarrow> x \<in> set rs \<Longrightarrow> res_ID r = res_ID x \<Longrightarrow> r = x"
  by (meson distinct_map inj_onD)

lemma up_to_date_updated: "up_to_date m (updated m r)"
  by (simp add: up_to_date_def updated_def alias_of_string_def orEmpty_def split: option.splits)

lemma up_to_date_created: "up_to_date m (created m i nid)"
  by (simp add: up_to_date_def created_def alias_of_string_def orEmpty_def split: option.splits)

lemma key_match_updated: "Alias m \<noteq> Some [] \<Longrightarrow> key_match m (updated m r)"
  by (auto simp: key_match_def updated_def alias_of_string_def orEmpty_def split: option.splits)

lemma key_match_created: "Alias m \<noteq> Some [] \<Longrightarrow> key_match m (created m i nid)"
  by (auto simp: key_match_def created_def alias_of_string_def orEmpty_def split: option.splits)

text \<open>A resource brought to one mapping does not answer the lookup of another.\<close>

lemma key_match_other:
  assumes "Name m \<noteq> Name m'" and "\<And>a. Alias m = Some a \<Longrightarrow> Alias m' \<noteq> Some a"
  shows "\<not> key_match m' (updated m r)" and "\<not> key_match m' (created m i nid)"
  using assms
  by (auto simp: key_match_def updated_def created_def alias_of_string_def orEmpty_def
      split: option.splits if_splits)

text \<open>The resource one mapping is up to date with is not the one another mapping finds.\<close>

lemma found_differ:
  assumes "Name m \<noteq> Name m'" and "\<And>a. Alias m = Some a \<Longrightarrow> Alias m' \<noteq> Some a"
    and "Alias m \<noteq> Some []"
    and "key_match m x" and "up_to_date m' y"
  shows "x \<noteq> y"
  using assms
  by (auto simp: key_match_def up_to_date_def orEmpty_def split: option.splits)

lemma in_sync_snoc:
  "in_sync parseIP nid (prev @ [m]) w
     = (in_sync parseIP nid prev w \<and> validateMapping parseIP m = None \<and> synced m (visible nid w))"
  by (auto simp: in_sync_synced)

lemma step_keeps_sync:
  assumes step: "syncSingleResource parseIP m nid w = (None, w')"
    and ids: "distinct (map res_ID (resources w))"
    and page: "length (resources w) < 100"
    and nonempty: "Alias m \<noteq> Some []"
    and before: "in_sync parseIP nid prev w"
    and names: "\<And>m'. m' \<in> set prev \<Longrightarrow> Name m \<noteq> Name m'"
    and aliases: "\<And>a m'. Alias m = Some a \<Longrightarrow> m' \<in> set prev \<Longrightarrow> Alias m' \<noteq> Some a"
  shows "in_sync parseIP nid (prev @ [m]) w' \<and> distinct (map res_ID (resources w'))
         \<and> length (resources w') \<le> Suc (length (resources w)) \<and> networks w' = networks w"
proof -
  let ?vs = "filter (in_network nid) (resources w)"
  from page have vis: "visible nid w = ?vs" by (simp add: visible_page)
  from syncSingleResource_success [OF step]
  have valid: "validateMapping parseIP m = None" and nets: "networks w' = networks w"
    and res: "(case find (key_match m) ?vs of
         Some x \<Rightarrow>
           if up_to_date m x then resources w' = resources w
           else resources w' = map (\<lambda>r. if res_ID r = res_ID x then updated m r else r) (resources w)
       | None \<Rightarrow> resources w' = resources w @ [created m (fresh_id w) nid])"
    by (simp_all add: lookupExisting_find vis)
  from before have others: "\<And>m'. m' \<in> set prev \<Longrightarrow>
      validateMapping parseIP m' = None \<and> synced m' ?vs"
    by (simp add: in_sync_synced vis list_all_iff)
  show ?thesis
  proof (cases "find (key_match m) ?vs")
    case None
    let ?c = "created m (fresh_id w) nid"
    from res None have r': "resources w' = resources w @ [?c]" by simp
    have inc: "in_network nid ?c" by (simp add: in_network_def created_def)
    from page r' have "length (resources w') \<le> 100" by simp
    then have vis': "visible nid w' = ?vs @ [?c]"
      using r' inc by (simp add: visible_page)
    have "synced m (?vs @ [?c])"
      using None key_match_created [OF nonempty] up_to_date_created
      by (simp add: synced_def find_snoc)
    moreover have "synced m' (?vs @ [?c])" if "m' \<in> set prev" for m'
      using others [OF that] by (auto simp: synced_def find_snoc split: option.splits)
    moreover have "fresh_id w \<notin> res_ID ` set (resources w)"
      using fresh_id_new by force
    then have "distinct (map res_ID (resources w'))"
      using ids by (simp add: r' created_def)
    ultimately show ?thesis
      using others valid nets r'
      by (simp add: in_sync_synced vis' list_all_iff)
  next
    case (Some x)
    from find_SomeE [OF Some] have xin: "x \<in> set ?vs" and xkey: "key_match m x" by simp_all
    show ?thesis
    proof (cases "up_to_date m x")
      case True
      with res Some have r': "resources w' = resources w" by simp
      then have "visible nid w' = ?vs" using vis by (simp add: visible_def)
      moreover have "synced m ?vs" using Some True by (simp add: synced_def)
      ultimately show ?thesis
        using others valid nets r' ids
        by (simp add: in_sync_synced list_all_iff)
    next
      case False
      let ?f = "\<lambda>r. if res_ID r = res_ID x then updated m r else r"
      from res Some False have r': "resources w' = map ?f (resources w)" by simp
      have net_f: "in_network nid (?f r) = in_network nid r" for r
        by (simp add: in_network_def updated_def)
      have id_f: "res_ID (?f r) = res_ID r" for r by (simp add: updated_def)
      from page r' have "length (resources w') \<le> 100" by simp
      then have vis': "visible nid w' = map ?f ?vs"
        by (simp add: visible_page r' filter_map comp_def net_f)
      have fixed: "?f r = r" if "r \<in> set ?vs" and "r \<noteq> x" for r
      proof -
        from that xin have "res_ID r \<noteq> res_ID x"
          using same_id_same_resource [OF ids, of r x] by auto
        then show ?thesis by simp
      qed
      have "find (key_match m) (map ?f ?vs) = Some (?f x)"
        using Some fixed key_match_updated [OF nonempty, of x]
        by (intro find_map_moved) simp_all
      then have me: "synced m (map ?f ?vs)"
        using up_to_date_updated [of m x] by (simp add: synced_def)
      have other: "synced m' (map ?f ?vs)" if "m' \<in> set prev" for m'
      proof -
        from others [OF that] obtain y where y: "find (key_match m') ?vs = Some y"
          and upy: "up_to_date m' y"
          by (auto simp: synced_def split: option.splits)
        from find_SomeE [OF y] have yin: "y \<in> set ?vs" by simp
        have "x \<noteq> y"
          using names [OF that] aliases [OF _ that] nonempty xkey upy
          by (intro found_differ [of m m']) auto
        with fixed [OF yin] have fy: "?f y = y" by simp
        have pulled: "key_match m' r" if "r \<in> set ?vs" and "key_match m' (?f r)" for r
          using that key_match_other(1) [of m m' r] names [OF \<open>m' \<in> set prev\<close>]
            aliases [OF _ \<open>m' \<in> set prev\<close>]
          by (auto split: if_splits)
        have "find (key_match m') (map ?f ?vs) = Some y"
          using y fy pulled by (intro find_map_keep) simp_all
        with upy show ?thesis by (simp add: synced_def)
      qed
      have "distinct (map res_ID (resources w'))"
        using ids by (simp add: r' comp_def id_f)
      with me other others valid nets r' show ?thesis
        by (simp add: in_sync_synced vis' list_all_iff)
    qed
  qed
qed

lemma alias_keys_member: "m \<in> set ms \<Longrightarrow> Alias m = Some a \<Longrightarrow> a \<in> set (alias_keys ms)"
  by (force simp: alias_keys_def)

lemma well_keyed_mid:
  assumes "well_keyed (prev @ m # todo)"
  shows "Alias m \<noteq> Some []"
    and "\<And>m'. m' \<in> set prev \<Longrightarrow> Name m \<noteq> Name m'"
    and "\<And>a m'. Alias m = Some a \<Longrightarrow> m' \<in> set prev \<Longrightarrow> Alias m' \<noteq> Some a"
proof -
  from assms have names: "distinct (map Name prev @ Name m # map Name todo)"
    and keys: "distinct (alias_keys prev @ alias_keys [m] @ alias_keys todo)"
    and nonempty: "[] \<notin> set (alias_keys [m])"
    by (simp_all add: well_keyed_def alias_keys_def)
  from nonempty show "Alias m \<noteq> Some []" by (auto simp: alias_keys_def)
  show "Name m \<noteq> Name m'" if "m' \<in> set prev" for m'
    using names that by auto
  show "Alias m' \<noteq> Some a" if "Alias m = Some a" and "m' \<in> set prev" for a m'
  proof
    assume "Alias m' = Some a"
    with that have "a \<in> set (alias_keys prev)" by (auto intro: alias_keys_member)
    moreover from that have "a \<in> set (alias_keys [m])" by (simp add: alias_keys_def)
    ultimately show False using keys by auto
  qed
qed

lemma upsertLoop_errors_mono:
  "upsertLoop parseIP ms nid (s, e) w = ((s', e'), w') \<Longrightarrow> e \<le> e'"
proof (induction ms arbitrary: s e w)
  case Nil
  then show ?case by simp
next
  case (Cons m ms)
  obtain r w1 where step: "syncSingleResource parseIP m nid w = (r, w1)" by (metis surj_pair)
  show ?case
  proof (cases r)
    case None
    with Cons.prems step have "upsertLoop parseIP ms nid (s + 1, e) w1 = ((s', e'), w')" by simp
    from Cons.IH [OF this] show ?thesis .
  next
    case (Some err)
    with Cons.prems step have "upsertLoop parseIP ms nid (s, e + 1) w1 = ((s', e'), w')" by simp
    from Cons.IH [OF this] show ?thesis by simp
  qed
qed

lemma upsertLoop_establishes:
  assumes "upsertLoop parseIP todo nid (s, e) w = ((s', e), w')"
    and "well_keyed (prev @ todo)"
    and "distinct (map res_ID (resources w))"
    and "length (resources w) + length todo \<le> 100"
    and "in_sync parseIP nid prev w"
  shows "in_sync parseIP nid (prev @ todo) w' \<and> distinct (map res_ID (resources w'))
         \<and> length (resources w') \<le> length (resources w) + length todo
         \<and> networks w' = networks w"
  using assms
proof (induction todo arbitrary: prev s w)
  case Nil
  then show ?case by simp
next
  case (Cons m todo)
  obtain r w1 where step: "syncSingleResource parseIP m nid w = (r, w1)" by (metis surj_pair)
  show ?case
  proof (cases r)
    case (Some err)
    with Cons.prems(1) step have "upsertLoop parseIP todo nid (s, e + 1) w1 = ((s', e), w')"
      by simp
    from upsertLoop_errors_mono [OF this] show ?thesis by simp
  next
    case None
    with Cons.prems(1) step have rest: "upsertLoop parseIP todo nid (s + 1, e) w1 = ((s', e), w')"
      by simp
    from step None have ok: "syncSingleResource parseIP m nid w = (None, w1)" by simp
    from Cons.prems(4) have page: "length (resources w) < 100" by simp
    note keyed = well_keyed_mid [OF Cons.prems(2)]
    from step_keeps_sync [OF ok Cons.prems(3) page keyed(1) Cons.prems(5) keyed(2) keyed(3)]
    have s1: "in_sync parseIP nid (prev @ [m]) w1" and d1: "distinct (map res_ID (resources w1))"
      and l1: "length (resources w1) \<le> Suc (length (resources w))"
      and n1: "networks w1 = networks w"
      by simp_all
    from Cons.prems(2) have k1: "well_keyed ((prev @ [m]) @ todo)" by simp
    from l1 Cons.prems(4) have p1: "length (resources w1) + length todo \<le> 100" by simp
    from Cons.IH [OF rest k1 d1 p1 s1] l1 n1 show ?thesis by simp
  qed
qed

lemma DeleteResource_success:
  assumes "DeleteResource i w = (None, w')"
  shows "resources w' = filter (\<lambda>r. res_ID r \<noteq> i) (resources w) \<and> networks w' = networks w"
  using assms
  by (auto simp: DeleteResource_eq Let_def delete_fails_def split: if_splits outcome.splits)

lemma deleteLoop_errors_mono:
  "deleteLoop cfg rs (d, e) w = ((d', e'), w') \<Longrightarrow> e \<le> e'"
proof (induction rs arbitrary: d e w)
  case Nil
  then show ?case by simp
next
  case (Cons r rs)
  show ?case
  proof (cases "DryRun cfg")
    case True
    with Cons.prems have "deleteLoop cfg rs (d + 1, e) w = ((d', e'), w')" by simp
    from Cons.IH [OF this] show ?thesis .
  next
    case False
    obtain res w1 where step: "DeleteResource (res_ID r) w = (res, w1)" by (metis surj_pair)
    show ?thesis
    proof (cases res)
      case None
      with Cons.prems step False have "deleteLoop cfg rs (d + 1, e) w1 = ((d', e'), w')" by simp
      from Cons.IH [OF this] show ?thesis .
    next
      case (Some err)
      with Cons.prems step False have "deleteLoop cfg rs (d, e + 1) w1 = ((d', e'), w')" by simp
      from Cons.IH [OF this] show ?thesis by simp
    qed
  qed
qed

lemma deleteLoop_success:
  "deleteLoop cfg rs (d, e) w = ((d', e), w') \<Longrightarrow>
     networks w' = networks w
     \<and> (\<exists>S. S \<subseteq> res_ID ` set rs \<and> resources w' = filter (\<lambda>r. res_ID r \<notin> S) (resources w))"
proof (induction rs arbitrary: d w)
  case Nil
  then have "resources w' = filter (\<lambda>r. res_ID r \<notin> {}) (resources w)" by simp
  with Nil show ?case by (metis Pair_inject deleteLoop.simps(1) empty_subsetI)
next
  case (Cons r rs)
  show ?case
  proof (cases "DryRun cfg")
    case True
    with Cons.prems have "deleteLoop cfg rs (d + 1, e) w = ((d', e), w')" by simp
    from Cons.IH [OF this] show ?thesis by auto
  next
    case False
    obtain res w1 where step: "DeleteResource (res_ID r) w = (res, w1)" by (metis surj_pair)
    show ?thesis
    proof (cases res)
      case (Some err)
      with Cons.prems step False have "deleteLoop cfg rs (d, e + 1) w1 = ((d', e), w')" by simp
      from deleteLoop_errors_mono [OF this] show ?thesis by simp
    next
      case None
      with Cons.prems step False have rest: "deleteLoop cfg rs (d + 1, e) w1 = ((d', e), w')"
        by simp
      from step None have "DeleteResource (res_ID r) w = (None, w1)" by simp
      from DeleteResource_success [OF this]
      have r1: "resources w1 = filter (\<lambda>x. res_ID x \<noteq> res_ID r) (resources w)"
        and n1: "networks w1 = networks w" by simp_all
      from Cons.IH [OF rest] obtain S where S: "S \<subseteq> res_ID ` set rs"
        and r': "resources w' = filter (\<lambda>r. res_ID r \<notin> S) (resources w1)"
        and n': "networks w' = networks w1" by auto
      have "resources w' = filter (\<lambda>x. res_ID x \<notin> insert (res_ID r) S) (resources w)"
        by (simp add: r' r1 conj_commute)
      moreover from S have "insert (res_ID r) S \<subseteq> res_ID ` set (r # rs)" by auto
      ultimately show ?thesis using n' n1 by metis
    qed
  qed
qed

lemma deleteStaleResources_success:
  assumes "deleteStaleResources ms nid cfg w = ((d, 0), w')"
  shows "networks w' = networks w
     \<and> (\<exists>S. S \<subseteq> res_ID ` set (staleResources ms (visible nid w))
            \<and> resources w' = filter (\<lambda>r. res_ID r \<notin> S) (resources w))"
proof -
  let ?w1 = "advance (QueryResources 100) w"
  from assms have ok: "next_outcome (script w) \<noteq> Fail"
    by (auto simp: deleteStaleResources_eq split: if_splits)
  with assms have "deleteLoop cfg (staleResources ms (visible nid w)) (0, 0) ?w1 = ((d, 0), w')"
    by (simp add: deleteStaleResources_eq visible_def)
  from deleteLoop_success [OF this] show ?thesis by simp
qed

lemma cleanup_keeps_sync:
  assumes sync: "in_sync parseIP nid ms w"
    and ids: "distinct (map res_ID (resources w))"
    and page: "length (resources w) \<le> 100"
    and S: "S \<subseteq> res_ID ` set (staleResources ms (visible nid w))"
    and r': "resources w' = filter (\<lambda>r. res_ID r \<notin> S) (resources w)"
  shows "in_sync parseIP nid ms w'"
proof -
  let ?vs = "filter (in_network nid) (resources w)"
  let ?Q = "\<lambda>r. res_ID r \<notin> S"
  from page have vis: "visible nid w = ?vs" by (simp add: visible_page)
  have "length (resources w') \<le> length (resources w)" by (simp add: r')
  with page have "length (resources w') \<le> 100" by simp
  then have vis': "visible nid w' = filter ?Q ?vs"
    by (simp add: visible_page r' conj_commute)
  have "synced m (filter ?Q ?vs)" if m: "m \<in> set ms" and sm: "synced m ?vs" for m
  proof -
    from sm obtain y where y: "find (key_match m) ?vs = Some y" and up: "up_to_date m y"
      by (auto simp: synced_def split: option.splits)
    from find_SomeE [OF y] have yin: "y \<in> set (resources w)" by simp
    have "res_ID y \<notin> S"
    proof
      assume "res_ID y \<in> S"
      with S obtain r where r: "r \<in> set (staleResources ms ?vs)" and "res_ID r = res_ID y"
        by (auto simp: vis)
      then have "r = y"
        using same_id_same_resource [OF ids, of r y] yin by (auto simp: staleResources_def)
      with r have "\<not> desiredNames ms (res_Name y)" by (simp add: staleResources_def)
      moreover from up have "res_Name y = Name m" by (simp add: up_to_date_def)
      ultimately show False using m by (simp add: desiredNames_iff)
    qed
    with y have "find (key_match m) (filter ?Q ?vs) = Some y"
      by (rule find_filter_keep [of "key_match m" ?vs y ?Q])
    with up show ?thesis by (simp add: synced_def)
  qed
  with sync show ?thesis
    by (auto simp: in_sync_synced vis vis' list_all_iff)
qed

lemma CreateRemoteNetwork_success:
  assumes "CreateRemoteNetwork name w = (Inr net, w')"
  shows "networks w' = networks w @ [net] \<and> net_Name net = name \<and> resources w' = resources w"
  using assms
  by (auto simp: CreateRemoteNetwork_def Mutate_remoteNetworkCreate_def mutate_def respond_def
      Let_def split: outcome.splits if_splits option.splits)

lemma GetOrCreateRemoteNetwork_success:
  assumes "GetOrCreateRemoteNetwork name w = (Inr net, w')" and "length (networks w) < 100"
  shows "find (\<lambda>network. net_Name network = name) (take 100 (networks w')) = Some net
     \<and> resources w' = resources w"
proof -
  let ?w1 = "advance (QueryRemoteNetworks 100) w"
  from assms(1) have ok: "next_outcome (script w) \<noteq> Fail"
    by (auto simp: GetOrCreateRemoteNetwork_def GetRemoteNetworkByName_eq split: if_splits)
  show ?thesis
  proof (cases "find (\<lambda>network. net_Name network = name) (take 100 (networks w))")
    case (Some n)
    with assms(1) ok show ?thesis
      by (auto simp: GetOrCreateRemoteNetwork_def GetRemoteNetworkByName_eq)
  next
    case None
    with assms(1) ok have "CreateRemoteNetwork name ?w1 = (Inr net, w')"
      by (simp add: GetOrCreateRemoteNetwork_def GetRemoteNetworkByName_eq)
    from CreateRemoteNetwork_success [OF this]
    have n': "networks w' = networks w @ [net]" and nm: "net_Name net = name"
      and r': "resources w' = resources w" by simp_all
    from None assms(2) have "find (\<lambda>network. net_Name network = name) (networks w) = None"
      by simp
    with nm assms(2) show ?thesis by (simp add: n' r' find_snoc)
  qed
qed

lemma in_sync_same_resources:
  "resources v = resources w \<Longrightarrow> in_sync parseIP nid ms v = in_sync parseIP nid ms w"
  by (simp add: in_sync_def visible_def)

lemma second_sync_idle:
  assumes first: "SyncResources parseIP ms name cfg w = (None, w')"
    and keyed: "well_keyed ms"
    and ids: "distinct (map res_ID (resources w))"
    and page: "length (resources w) + length ms \<le> 100"
    and nets: "length (networks w) < 100"
    and same: "same_inventory v w'"
  shows "list_all (\<lambda>c. \<not> is_create_or_update c)
           (new_calls v (snd (SyncResources parseIP ms name cfg' v)))"
proof (cases "ms = []")
  case True
  then show ?thesis by (simp add: SyncResources_def new_calls_def)
next
  case False
  let ?name = "if name = [] then DefaultRemoteNetworkName else name"
  obtain r w1 where get: "GetOrCreateRemoteNetwork ?name w = (r, w1)" by (metis surj_pair)
  from first False get obtain net where r: "r = Inr net"
    by (cases r) (auto simp: SyncResources_def Let_def)
  let ?nid = "net_ID net"
  obtain s e w2 where up: "upsertLoop parseIP ms ?nid (0, 0) w1 = ((s, e), w2)"
    by (metis surj_pair)
  define cleanup where "cleanup = (case cfg of None \<Rightarrow> ((0, 0), w2)
      | Some c \<Rightarrow> if Enabled c then deleteStaleResources ms ?nid c w2 else ((0, 0), w2))"
  obtain d de w3 where cl: "cleanup = ((d, de), w3)" by (metis surj_pair)
  from first False get r up cl have res: "e + de = 0" "w' = w3"
    by (auto simp: SyncResources_def upsertResources_def cleanup_def Let_def split: if_splits)
  then have e0: "e = 0" and de0: "de = 0" by simp_all
  from GetOrCreateRemoteNetwork_success [OF get [unfolded r] nets]
  have found: "find (\<lambda>network. net_Name network = ?name) (take 100 (networks w1)) = Some net"
    and r1: "resources w1 = resources w" by simp_all
  have start: "in_sync parseIP ?nid [] w1" by (simp add: in_sync_def)
  from upsertLoop_establishes [of parseIP ms ?nid 0 0 w1 s w2 "[]"] up e0 keyed ids page r1 start
  have s2: "in_sync parseIP ?nid ms w2" and d2: "distinct (map res_ID (resources w2))"
    and l2: "length (resources w2) \<le> 100" and n2: "networks w2 = networks w1"
    by simp_all
  have "in_sync parseIP ?nid ms w3 \<and> networks w3 = networks w2"
  proof (cases "\<exists>c. cfg = Some c \<and> Enabled c")
    case False
    with cl have "w3 = w2" by (auto simp: cleanup_def split: option.splits if_splits)
    with s2 show ?thesis by simp
  next
    case True
    then obtain c where "cfg = Some c" "Enabled c" by blast
    with cl de0 have "deleteStaleResources ms ?nid c w2 = ((d, 0), w3)"
      by (simp add: cleanup_def)
    from deleteStaleResources_success [OF this] obtain S
      where "S \<subseteq> res_ID ` set (staleResources ms (visible ?nid w2))"
        and "resources w3 = filter (\<lambda>r. res_ID r \<notin> S) (resources w2)"
        and "networks w3 = networks w2" by auto
    with cleanup_keeps_sync [OF s2 d2 l2] show ?thesis by simp
  qed
  then have s3: "in_sync parseIP ?nid ms w3" and n3: "networks w3 = networks w1"
    using n2 by simp_all
  from same res(2) have "networks v = networks w3" "resources v = resources w3"
    by (simp_all add: same_inventory_def)
  with found n3 s3 in_sync_same_resources [of v w3 parseIP ?nid ms]
  have "find (\<lambda>network. net_Name network = ?name) (take 100 (networks v)) = Some net"
    and "in_sync parseIP ?nid ms v"
    by simp_all
  then show ?thesis by (rule SyncResources_in_sync)
qed

text \<open>
  Claim C2, amended. The engine compares aliases as strings, a nil alias being the
  empty string, so an absent alias equals an absent alias and an empty one as well. For
  every mapping and every existing resource found for it: when name and address are
  equal and the aliases are equal in that sense, \<open>updateExistingResource\<close> issues no
  call and returns success; otherwise it issues exactly one update that carries, for
  each of the three fields, the existing value unless the desired one differs. Hence,
  when a first \<open>SyncResources\<close> returns without error for well keyed mappings, on an
  inventory whose resource identifiers are distinct and which, with the resources the
  run may add, fits in the first page (at most 100 resources in all, fewer than 100
  networks), a second \<open>SyncResources\<close> with the same mappings on the inventory the
  first one left issues no create and no update call. Without these conditions it may:
  a resource created behind a full first page is created again, two mappings that share
  an alias update one resource back and forth, and a creation that failed in the first
  run is issued again in the second.
\<close>

theorem updateExistingResource_minimal_diff:
  "(up_to_date m e \<longrightarrow> updateExistingResource m e w = (None, w))
   \<and> (\<not> up_to_date m e \<longrightarrow>
        new_calls w (snd (updateExistingResource m e w))
          = [MutateResourceUpdate (res_ID e)
               (if res_Name e \<noteq> Name m then Name m else res_Name e)
               (if res_Address e \<noteq> Address m then Address m else res_Address e)
               (if orEmpty (res_Alias e) \<noteq> orEmpty (Alias m) then orEmpty (Alias m)
                else orEmpty (res_Alias e))])
   \<and> (SyncResources parseIP ms name cfg v = (None, v')
        \<and> well_keyed ms \<and> distinct (map res_ID (resources v))
        \<and> length (resources v) + length ms \<le> 100 \<and> length (networks v) < 100
        \<and> same_inventory v'' v' \<longrightarrow>
        list_all (\<lambda>c. \<not> is_create_or_update c)
          (new_calls v'' (snd (SyncResources parseIP ms name cfg' v''))))"
  using updateExistingResource_unchanged [of m e w]
    new_calls_append [OF updateExistingResource_log [of m e w]]
    second_sync_idle [of parseIP ms name cfg v v' v'' cfg']
  by blast

theorem updateExistingResource_minimal_diff_witness:
  "up_to_date (example_mapping ''api.example.com'') (example_resource ''res1'' ''api.example.com'')
   \<and> updateExistingResource (example_mapping ''api.example.com'')
        (example_resource ''res1'' ''api.example.com'')
        (example_world [example_resource ''res1'' ''api.example.com''] [])
     = (None, example_world [example_resource ''res1'' ''api.example.com''] [])
   \<and> \<not> up_to_date (example_mapping ''api.example.com'')
          (example_resource ''res1'' ''old.example.com'')
   \<and> new_calls (example_world [example_resource ''res1'' ''old.example.com''] [])
        (snd (updateExistingResource (example_mapping ''api.example.com'')
           (example_resource ''res1'' ''old.example.com'')
           (example_world [example_resource ''res1'' ''old.example.com''] [])))
     = [MutateResourceUpdate ''res1'' ''api.example.com'' ''10.0.0.1'' []]
   \<and> well_keyed [discovered_mapping ''api.example.com'', discovered_mapping ''*.example.com'']
   \<and> fst (SyncResources example_parseIP
        [discovered_mapping ''api.example.com'', discovered_mapping ''*.example.com''] [] None
        (example_world [example_resource ''res1'' ''old.example.com''] [])) = None
   \<and> new_calls (example_world [example_resource ''res1'' ''old.example.com''] [])
        (snd (SyncResources example_parseIP
          [discovered_mapping ''api.example.com'', discovered_mapping ''*.example.com''] [] None
          (example_world [example_resource ''res1'' ''old.example.com''] [])))
     = [QueryRemoteNetworks 100,
        QueryResources 100,
        MutateResourceCreate ''api.example.com'' ''10.0.0.1'' ''net1'' ''api.example.com'',
        QueryResources 100,
        MutateResourceCreate ''*.example.com'' ''10.0.0.1'' ''net1'' []]
   \<and> list_all (\<lambda>c. \<not> is_create_or_update c)
        (new_calls
          (snd (SyncResources example_parseIP
            [discovered_mapping ''api.example.com'', discovered_mapping ''*.example.com''] [] None
            (example_world [example_resource ''res1'' ''old.example.com''] [])))
          (snd (SyncResources example_parseIP
            [discovered_mapping ''api.example.com'', discovered_mapping ''*.example.com''] [] None
            (snd (SyncResources example_parseIP
              [discovered_mapping ''api.example.com'', discovered_mapping ''*.example.com''] []
              None (example_world [example_resource ''res1'' ''old.example.com''] []))))))"
proof -
  let ?m = "example_mapping ''api.example.com''"
  let ?e = "example_resource ''res1'' ''api.example.com''"
  let ?old = "example_resource ''res1'' ''old.example.com''"
  let ?ms = "[discovered_mapping ''api.example.com'', discovered_mapping ''*.example.com'']"
  let ?w = "example_world [?old] []"
  let ?first = "SyncResources example_parseIP ?ms [] None ?w"
  have a: "up_to_date ?m ?e" and b: "\<not> up_to_date ?m ?old"
    by (simp_all add: up_to_date_def example_defs)
  have k: "well_keyed ?ms"
    by (simp add: well_keyed_def alias_keys_def discovered_mapping_def ToResourceMapping_def
        ResourceName_def ResourceAlias_def Contains_single)
  have run: "fst ?first = None"
    and calls: "new_calls ?w (snd ?first)
     = [QueryRemoteNetworks 100,
        QueryResources 100,
        MutateResourceCreate ''api.example.com'' ''10.0.0.1'' ''net1'' ''api.example.com'',
        QueryResources 100,
        MutateResourceCreate ''*.example.com'' ''10.0.0.1'' ''net1'' []]"
    by (simp_all add: SyncResources_def GetOrCreateRemoteNetwork_def GetRemoteNetworkByName_eq
      upsertResources_def syncSingleResource_def validateMapping_def GetResourceByAlias_def
      GetResources_eq createNewResource_def CreateResource_def Mutate_resourceCreate_def
      mutate_def respond_def orEmpty_def new_calls_def advance_def next_outcome_def
      DefaultRemoteNetworkName_def discovered_mapping_def ToResourceMapping_def
      ResourceName_def ResourceAlias_def Contains_single example_defs Let_def)
  from run have first: "?first = (None, snd ?first)" by (simp add: prod_eq_iff)
  have pre: "distinct (map res_ID (resources ?w))" "length (resources ?w) + length ?ms \<le> 100"
    "length (networks ?w) < 100" "same_inventory (snd ?first) (snd ?first)"
    by (simp_all add: example_defs same_inventory_def)
  from a b k run calls first pre
    updateExistingResource_minimal_diff [where m = ?m and e = ?e and w = "example_world [?e] []"
      and parseIP = example_parseIP and ms = ?ms and name = "[]" and cfg = None and v = ?w
      and v' = "snd ?first" and v'' = "snd ?first" and cfg' = None]
    updateExistingResource_minimal_diff [where m = ?m and e = ?old and w = "example_world [?old] []"
      and parseIP = example_parseIP and ms = ?ms and name = "[]" and cfg = None and v = ?w
      and v' = "snd ?first" and v'' = "snd ?first" and cfg' = None]
  show ?thesis
    by (simp add: example_resource_def example_mapping_def orEmpty_def)
qed

theorem minimal_diff_idempotence_counterexample:
  "res_Alias ((example_resource ''res1'' ''*.example.com'')\<lparr>res_Alias := Some []\<rparr>)
     \<noteq> Alias (example_mapping ''*.example.com'')
   \<and> updateExistingResource (example_mapping ''*.example.com'')
        ((example_resource ''res1'' ''*.example.com'')\<lparr>res_Alias := Some []\<rparr>)
        (example_world [(example_resource ''res1'' ''*.example.com'')\<lparr>res_Alias := Some []\<rparr>] [])
     = (None,
        example_world [(example_resource ''res1'' ''*.example.com'')\<lparr>res_Alias := Some []\<rparr>] [])
   \<and> fst (SyncResources example_parseIP [example_mapping ''api.example.com''] [] None
        full_page_world) = None
   \<and> new_calls
        (snd (SyncResources example_parseIP [example_mapping ''api.example.com''] [] None
           full_page_world))
        (snd (SyncResources example_parseIP [example_mapping ''api.example.com''] [] None
           (snd (SyncResources example_parseIP [example_mapping ''api.example.com''] [] None
              full_page_world))))
     = [QueryRemoteNetworks 100, QueryResources 100,
        MutateResourceCreate ''api.example.com'' ''10.0.0.1'' ''net1'' []]
   \<and> fst (SyncResources example_parseIP
        [shared_alias_mapping ''a.example.com'', shared_alias_mapping ''b.example.com''] [] None
        (example_world [] [])) = None
   \<and> \<not> list_all (\<lambda>c. \<not> is_create_or_update c)
     (new_calls
        (snd (SyncResources example_parseIP
           [shared_alias_mapping ''a.example.com'', shared_alias_mapping ''b.example.com''] []
           None (example_world [] [])))
        (snd (SyncResources example_parseIP
           [shared_alias_mapping ''a.example.com'', shared_alias_mapping ''b.example.com''] []
           None
           (snd (SyncResources example_parseIP
              [shared_alias_mapping ''a.example.com'', shared_alias_mapping ''b.example.com'']
              [] None (example_world [] []))))))
   \<and> fst (SyncResources example_parseIP [example_mapping ''api.example.com''] [] None
        (example_world [] [Ok, Ok, NotOk None])) = Some (ErrSync 1 1 0)
   \<and> new_calls
        (snd (SyncResources example_parseIP [example_mapping ''api.example.com''] [] None
           (example_world [] [Ok, Ok, NotOk None])))
        (snd (SyncResources example_parseIP [example_mapping ''api.example.com''] [] None
           (snd (SyncResources example_parseIP [example_mapping ''api.example.com''] [] None
              (example_world [] [Ok, Ok, NotOk None])))))
     = [QueryRemoteNetworks 100, QueryResources 100,
        MutateResourceCreate ''api.example.com'' ''10.0.0.1'' ''net1'' []]"
proof -
  have alias_case: "res_Alias ((example_resource ''res1'' ''*.example.com'')\<lparr>res_Alias := Some []\<rparr>)
     \<noteq> Alias (example_mapping ''*.example.com'')
   \<and> updateExistingResource (example_mapping ''*.example.com'')
        ((example_resource ''res1'' ''*.example.com'')\<lparr>res_Alias := Some []\<rparr>)
        (example_world [(example_resource ''res1'' ''*.example.com'')\<lparr>res_Alias := Some []\<rparr>] [])
     = (None,
        example_world [(example_resource ''res1'' ''*.example.com'')\<lparr>res_Alias := Some []\<rparr>] [])"
    by (simp add: updateExistingResource_def orEmpty_def example_defs Let_def)
  have twice: "fst (SyncResources example_parseIP [example_mapping ''api.example.com''] [] None
        full_page_world) = None
   \<and> new_calls
        (snd (SyncResources example_parseIP [example_mapping ''api.example.com''] [] None
           full_page_world))
        (snd (SyncResources example_parseIP [example_mapping ''api.example.com''] [] None
           (snd (SyncResources example_parseIP [example_mapping ''api.example.com''] [] None
              full_page_world))))
     = [QueryRemoteNetworks 100, QueryResources 100,
        MutateResourceCreate ''api.example.com'' ''10.0.0.1'' ''net1'' []]"
    by (simp add: SyncResources_def GetOrCreateRemoteNetwork_def GetRemoteNetworkByName_eq
      upsertResources_def syncSingleResource_def validateMapping_def
      GetResources_eq createNewResource_def CreateResource_def Mutate_resourceCreate_def
      mutate_def respond_def orEmpty_def new_calls_def advance_def next_outcome_def
      DefaultRemoteNetworkName_def full_page_world_def example_defs example_network_def Let_def)
  have shared: "fst (SyncResources example_parseIP
        [shared_alias_mapping ''a.example.com'', shared_alias_mapping ''b.example.com''] [] None
        (example_world [] [])) = None
   \<and> \<not> list_all (\<lambda>c. \<not> is_create_or_update c)
     (new_calls
        (snd (SyncResources example_parseIP
           [shared_alias_mapping ''a.example.com'', shared_alias_mapping ''b.example.com''] []
           None (example_world [] [])))
        (snd (SyncResources example_parseIP
           [shared_alias_mapping ''a.example.com'', shared_alias_mapping ''b.example.com''] []
           None
           (snd (SyncResources example_parseIP
              [shared_alias_mapping ''a.example.com'', shared_alias_mapping ''b.example.com'']
              [] None (example_world [] []))))))"
  by (simp add: SyncResources_def GetOrCreateRemoteNetwork_def GetRemoteNetworkByName_eq
      upsertResources_def syncSingleResource_def validateMapping_def GetResourceByAlias_def
      GetResources_eq createNewResource_def CreateResource_def Mutate_resourceCreate_def
      updateExistingResource_def UpdateResource_def Mutate_resourceUpdate_def
      mutate_def respond_def orEmpty_def alias_of_string_def new_calls_def advance_def
      next_outcome_def is_create_or_update_def
      DefaultRemoteNetworkName_def shared_alias_mapping_def example_defs Let_def)
  have failed: "fst (SyncResources example_parseIP [example_mapping ''api.example.com''] [] None
        (example_world [] [Ok, Ok, NotOk None])) = Some (ErrSync 1 1 0)
   \<and> new_calls
        (snd (SyncResources example_parseIP [example_mapping ''api.example.com''] [] None
           (example_world [] [Ok, Ok, NotOk None])))
        (snd (SyncResources example_parseIP [example_mapping ''api.example.com''] [] None
           (snd (SyncResources example_parseIP [example_mapping ''api.example.com''] [] None
              (example_world [] [Ok, Ok, NotOk None])))))
     = [QueryRemoteNetworks 100, QueryResources 100,
        MutateResourceCreate ''api.example.com'' ''10.0.0.1'' ''net1'' []]"
    by (simp add: SyncResources_def GetOrCreateRemoteNetwork_def GetRemoteNetworkByName_eq
      upsertResources_def syncSingleResource_def validateMapping_def
      GetResources_eq createNewResource_def CreateResource_def Mutate_resourceCreate_def
      mutate_def respond_def orEmpty_def errorMsg_def new_calls_def advance_def next_outcome_def
      DefaultRemoteNetworkName_def example_defs Let_def)
  from alias_case twice shared failed show ?thesis by simp
qed

section \<open>The target network\<close>

lemma createNewResource_log:
  "log (snd (createNewResource m nid w))
     = log w @ [MutateResourceCreate (Name m) (Address m) nid (orEmpty (Alias m))]"
proof -
  let ?input = "\<lparr>ci_Name = Name m, ci_Address = Address m, ci_RemoteNetworkID = nid,
                  ci_Alias = orEmpty (Alias m)\<rparr>"
  have "snd (createNewResource m nid w) = snd (CreateResource ?input w)"
    by (simp add: createNewResource_def Let_def split: prod.splits sum.splits)
  then show ?thesis by (simp add: CreateResource_log)
qed

lemma updateExistingResource_calls:
  "\<exists>cs. log (snd (updateExistingResource m e w)) = log w @ cs
        \<and> list_all (\<lambda>c. \<not> is_network_create c) cs"
proof (cases "up_to_date m e")
  case True
  then show ?thesis by (simp add: updateExistingResource_unchanged)
next
  case False
  from updateExistingResource_log [OF this, of w] show ?thesis
    by (simp add: is_network_create_def)
qed

lemma existing_or_new_calls:
  "\<exists>cs. log (snd (case found of Some existing \<Rightarrow> updateExistingResource m existing w1
                   | None \<Rightarrow> createNewResource m nid w1)) = log w1 @ cs
        \<and> list_all (\<lambda>c. \<not> is_network_create c) cs"
proof (cases found)
  case None
  then show ?thesis by (simp add: createNewResource_log is_network_create_def)
next
  case (Some existing)
  then show ?thesis using updateExistingResource_calls [of m existing w1] by simp
qed

lemma syncSingleResource_calls:
  "\<exists>cs. log (snd (syncSingleResource parseIP m nid w)) = log w @ cs
        \<and> list_all (\<lambda>c. \<not> is_network_create c) cs"
proof (cases "validateMapping parseIP m = None \<and> next_outcome (script w) \<noteq> Fail")
  case False
  then show ?thesis
    by (auto simp: syncSingleResource_def GetResourceByAlias_def GetResources_eq
        is_network_create_def split: option.splits)
next
  case True
  let ?w1 = "advance (QueryResources 100) w"
  define found where "found = (case Alias m of
      Some alias \<Rightarrow> find (\<lambda>resource. res_Alias resource = Some alias) (visible nid w)
    | None \<Rightarrow> find (\<lambda>res. res_Name res = Name m) (visible nid w))"
  have eq: "syncSingleResource parseIP m nid w =
      (case found of Some existing \<Rightarrow> updateExistingResource m existing ?w1
       | None \<Rightarrow> createNewResource m nid ?w1)"
    using True
    by (simp add: syncSingleResource_def GetResourceByAlias_def GetResources_eq found_def
        visible_def split: option.splits)
  from existing_or_new_calls [where found = found and m = m and ?w1.0 = ?w1 and nid = nid]
  obtain cs where "log (snd (syncSingleResource parseIP m nid w)) = log ?w1 @ cs"
    and "list_all (\<lambda>c. \<not> is_network_create c) cs"
    unfolding eq by blast
  then have "log (snd (syncSingleResource parseIP m nid w)) = log w @ QueryResources 100 # cs
      \<and> list_all (\<lambda>c. \<not> is_network_create c) (QueryResources 100 # cs)"
    by (simp add: is_network_create_def)
  then show ?thesis by blast
qed

lemma upsertLoop_calls:
  "\<exists>cs. log (snd (upsertLoop parseIP ms nid (s, e) w)) = log w @ cs
        \<and> list_all (\<lambda>c. \<not> is_network_create c) cs"
proof (induction ms arbitrary: s e w)
  case Nil
  then show ?case by simp
next
  case (Cons m ms)
  obtain r w1 where step: "syncSingleResource parseIP m nid w = (r, w1)"
    by (metis surj_pair)
  from syncSingleResource_calls [of parseIP m nid w] step
  obtain cs1 where l1: "log w1 = log w @ cs1" and p1: "list_all (\<lambda>c. \<not> is_network_create c) cs1"
    by auto
  obtain s1 e1 where "upsertLoop parseIP (m # ms) nid (s, e) w = upsertLoop parseIP ms nid (s1, e1) w1"
    using step by (cases r) auto
  moreover from Cons.IH [of s1 e1 w1]
  obtain cs2 where "log (snd (upsertLoop parseIP ms nid (s1, e1) w1)) = log w1 @ cs2"
    and "list_all (\<lambda>c. \<not> is_network_create c) cs2" by blast
  ultimately have "log (snd (upsertLoop parseIP (m # ms) nid (s, e) w)) = log w @ (cs1 @ cs2)
      \<and> list_all (\<lambda>c. \<not> is_network_create c) (cs1 @ cs2)"
    using l1 p1 by simp
  then show ?case by blast
qed

lemma not_create_or_update_not_network_create:
  "list_all (\<lambda>c. \<not> is_create_or_update c) cs \<Longrightarrow> list_all (\<lambda>c. \<not> is_network_create c) cs"
  by (auto simp: list_all_iff is_create_or_update_def is_network_create_def split: call.splits)

lemma not_network_create_only:
  "list_all (\<lambda>c. \<not> is_network_create c) cs \<Longrightarrow> list_all (creates_only_network name) cs"
  by (auto simp: list_all_iff creates_only_network_def is_network_create_def split: call.splits)

lemma GetOrCreateRemoteNetwork_calls:
  "\<exists>cs. log (snd (GetOrCreateRemoteNetwork name w)) = log w @ cs
        \<and> list_all (creates_only_network name) cs"
proof -
  have "log (snd (GetOrCreateRemoteNetwork name w)) = log w @ [QueryRemoteNetworks 100]
     \<or> log (snd (GetOrCreateRemoteNetwork name w))
         = log w @ [QueryRemoteNetworks 100, MutateRemoteNetworkCreate name]"
    by (simp add: GetOrCreateRemoteNetwork_def GetRemoteNetworkByName_eq CreateRemoteNetwork_log
        split: option.splits)
  moreover have "list_all (creates_only_network name) [QueryRemoteNetworks 100]"
    "list_all (creates_only_network name) [QueryRemoteNetworks 100, MutateRemoteNetworkCreate name]"
    by (simp_all add: creates_only_network_def)
  ultimately show ?thesis by metis
qed

lemma SyncResources_calls:
  "list_all (creates_only_network (if name = [] then DefaultRemoteNetworkName else name))
     (new_calls w (snd (SyncResources parseIP ms name cfg w)))"
proof (cases "ms = []")
  case True
  then show ?thesis by (simp add: SyncResources_def new_calls_def)
next
  case False
  let ?name = "if name = [] then DefaultRemoteNetworkName else name"
  obtain r w1 where get: "GetOrCreateRemoteNetwork ?name w = (r, w1)"
    by (metis surj_pair)
  from GetOrCreateRemoteNetwork_calls [of ?name w] get
  obtain cs1 where l1: "log w1 = log w @ cs1" and p1: "list_all (creates_only_network ?name) cs1"
    by auto
  show ?thesis
  proof (cases r)
    case (Inl err)
    with False get l1 p1 show ?thesis
      by (simp add: SyncResources_def new_calls_def Let_def)
  next
    case (Inr network)
    obtain s e w2 where up: "upsertLoop parseIP ms (net_ID network) (0, 0) w1 = ((s, e), w2)"
      by (metis surj_pair)
    from upsertLoop_calls [of parseIP ms "net_ID network" 0 0 w1] up
    obtain cs2 where l2: "log w2 = log w1 @ cs2"
      and p2: "list_all (\<lambda>c. \<not> is_network_create c) cs2" by auto
    define w3 where "w3 = (case cfg of None \<Rightarrow> w2
      | Some c \<Rightarrow> if Enabled c then snd (deleteStaleResources ms (net_ID network) c w2) else w2)"
    have "\<exists>cs. log w3 = log w2 @ cs \<and> list_all (\<lambda>c. \<not> is_create_or_update c) cs"
      using deleteStaleResources_calls [of ms "net_ID network" _ w2]
      by (auto simp: w3_def split: option.splits)
    then obtain cs3 where l3: "log w3 = log w2 @ cs3"
      and p3: "list_all (\<lambda>c. \<not> is_create_or_update c) cs3" by blast
    have final: "snd (SyncResources parseIP ms name cfg w) = w3"
      using False get up Inr
      by (simp add: SyncResources_def upsertResources_def w3_def Let_def
          split: option.splits prod.splits)
    from p1 not_network_create_only [OF p2, of ?name]
      not_network_create_only [OF not_create_or_update_not_network_create [OF p3], of ?name]
    show ?thesis
      by (simp add: final new_calls_def l3 l2 l1)
  qed
qed

lemma summaryLoop_name:
  "RemoteNetworkName (fst (summaryLoop ms network summary w)) = RemoteNetworkName summary"
  by (induction ms network summary w rule: summaryLoop.induct)
     (auto split: option.splits prod.splits sum.splits)

lemma summaryLoop_nameD:
  "summaryLoop ms network summary w = (s, w') \<Longrightarrow> RemoteNetworkName s = RemoteNetworkName summary"
  using summaryLoop_name [of ms network summary w] by simp

lemma find_SomeD: "find P xs = Some x \<Longrightarrow> P x"
  by (induction xs) (auto split: if_splits)

lemma GetSyncSummary_name:
  assumes "ms \<noteq> []" and "fst (GetSyncSummary ms name w) = Inr s"
  shows "RemoteNetworkName s = (if name = [] then DefaultRemoteNetworkName else name)"
proof -
  let ?name = "if name = [] then DefaultRemoteNetworkName else name"
  from assms have ok: "next_outcome (script w) \<noteq> Fail"
    by (auto simp: GetSyncSummary_def GetRemoteNetworkByName_eq Let_def split: if_splits)
  show ?thesis
  proof (cases "find (\<lambda>network. net_Name network = ?name) (take 100 (networks w))")
    case None
    with assms ok show ?thesis
      by (auto simp: GetSyncSummary_def GetRemoteNetworkByName_eq Let_def split: prod.splits
          dest: summaryLoop_nameD)
  next
    case (Some network)
    from find_SomeD [OF this] have "net_Name network = ?name" .
    with assms ok Some show ?thesis
      by (auto simp: GetSyncSummary_def GetRemoteNetworkByName_eq Let_def split: prod.splits
          dest: summaryLoop_nameD)
  qed
qed

text \<open>
  Claim C10. When the network name argument is the empty string, \<open>SyncResources\<close>
  and \<open>GetSyncSummary\<close> behave as they do for the name \<open>Caddy-Managed\<close>: the result
  and the calls are those of a run with that name. So no run with an empty name creates
  a network of any other name, the empty one included, and for a non-empty mapping list
  the summary names the network \<open>Caddy-Managed\<close>.
\<close>

theorem empty_network_name_defaults:
  "SyncResources parseIP ms [] cfg w = SyncResources parseIP ms ''Caddy-Managed'' cfg w
   \<and> GetSyncSummary ms [] w = GetSyncSummary ms ''Caddy-Managed'' w
   \<and> list_all (creates_only_network ''Caddy-Managed'')
        (new_calls w (snd (SyncResources parseIP ms [] cfg w)))
   \<and> (ms \<noteq> [] \<longrightarrow>
        (case fst (GetSyncSummary ms [] w) of
           Inl err \<Rightarrow> True
         | Inr summary \<Rightarrow> RemoteNetworkName summary = ''Caddy-Managed''))"
proof -
  have "SyncResources parseIP ms [] cfg w = SyncResources parseIP ms ''Caddy-Managed'' cfg w"
    by (simp add: SyncResources_def DefaultRemoteNetworkName_def Let_def)
  moreover have "GetSyncSummary ms [] w = GetSyncSummary ms ''Caddy-Managed'' w"
    by (simp add: GetSyncSummary_def DefaultRemoteNetworkName_def Let_def)
  moreover have "list_all (creates_only_network ''Caddy-Managed'')
        (new_calls w (snd (SyncResources parseIP ms [] cfg w)))"
    using SyncResources_calls [of "[]" w parseIP ms cfg]
    by (simp add: DefaultRemoteNetworkName_def)
  moreover have "ms \<noteq> [] \<longrightarrow>
        (case fst (GetSyncSummary ms [] w) of
           Inl err \<Rightarrow> True
         | Inr summary \<Rightarrow> RemoteNetworkName summary = ''Caddy-Managed'')"
    using GetSyncSummary_name [of ms "[]" w]
    by (auto simp: DefaultRemoteNetworkName_def split: sum.splits)
  ultimately show ?thesis by blast
qed

theorem empty_network_name_defaults_witness:
  "[example_mapping ''api.example.com''] \<noteq> []
   \<and> fst (GetSyncSummary [example_mapping ''api.example.com''] []
        (example_world [example_resource ''res1'' ''api.example.com''] []))
     = Inr \<lparr>TotalMappings = 1, RemoteNetworkAction = ''use_existing'',
            RemoteNetworkName = ''Caddy-Managed'', RemoteNetworkID = ''net1'',
            ResourcesToCreate = 0, ResourcesToUpdate = 1\<rparr>
   \<and> fst (GetSyncSummary [example_mapping ''api.example.com''] [] empty_world)
     = Inr \<lparr>TotalMappings = 1, RemoteNetworkAction = ''create'',
            RemoteNetworkName = ''Caddy-Managed'', RemoteNetworkID = [],
            ResourcesToCreate = 1, ResourcesToUpdate = 0\<rparr>
   \<and> new_calls empty_world
        (snd (SyncResources example_parseIP [example_mapping ''api.example.com''] [] None
           empty_world))
     = [QueryRemoteNetworks 100, MutateRemoteNetworkCreate ''Caddy-Managed'',
        QueryResources 100, MutateResourceCreate ''api.example.com'' ''10.0.0.1'' ''id-i'' []]"
  using empty_network_name_defaults [where ms = "[example_mapping ''api.example.com'']"
      and w = "example_world [example_resource ''res1'' ''api.example.com''] []"
      and parseIP = example_parseIP and cfg = None]
    empty_network_name_defaults [where ms = "[example_mapping ''api.example.com'']"
      and w = empty_world and parseIP = example_parseIP and cfg = None]
  by (simp add: GetSyncSummary_def GetRemoteNetworkByName_eq GetResources_eq SyncResources_def
      GetOrCreateRemoteNetwork_def CreateRemoteNetwork_def Mutate_remoteNetworkCreate_def
      mutate_def respond_def upsertResources_def syncSingleResource_def validateMapping_def
      createNewResource_def CreateResource_def Mutate_resourceCreate_def fresh_id_def
      alias_of_string_def orEmpty_def new_calls_def advance_def next_outcome_def
      DefaultRemoteNetworkName_def empty_world_def example_defs Let_def)

section \<open>Consolidation by host\<close>

lemma consolidate_step:
  fixes hostMap :: "(string \<times> Endpoint) list"
  assumes "distinct (map fst hostMap)"
    and "list_all (\<lambda>(k, e). e = \<lparr>Host = k, Path = []\<rparr>) hostMap"
  shows "distinct (map fst (fold (\<lambda>ep hostMap.
             if map_of hostMap (Host ep) = None
             then hostMap @ [(Host ep, \<lparr>Host = Host ep, Path = []\<rparr>)]
             else hostMap) endpoints hostMap))
     \<and> list_all (\<lambda>(k, e). e = \<lparr>Host = k, Path = []\<rparr>) (fold (\<lambda>ep hostMap.
             if map_of hostMap (Host ep) = None
             then hostMap @ [(Host ep, \<lparr>Host = Host ep, Path = []\<rparr>)]
             else hostMap) endpoints hostMap)
     \<and> fst ` set (fold (\<lambda>ep hostMap.
             if map_of hostMap (Host ep) = None
             then hostMap @ [(Host ep, \<lparr>Host = Host ep, Path = []\<rparr>)]
             else hostMap) endpoints hostMap) = fst ` set hostMap \<union> Host ` set endpoints"
  using assms
proof (induction endpoints arbitrary: hostMap)
  case Nil
  then show ?case by simp
next
  case (Cons ep endpoints)
  show ?case
  proof (cases "map_of hostMap (Host ep) = None")
    case True
    then have fresh: "Host ep \<notin> fst ` set hostMap" by (simp add: map_of_eq_None_iff)
    let ?hm = "hostMap @ [(Host ep, \<lparr>Host = Host ep, Path = []\<rparr>)]"
    from Cons.prems fresh have "distinct (map fst ?hm)"
      and "list_all (\<lambda>(k, e). e = \<lparr>Host = k, Path = []\<rparr>) ?hm" by auto
    from Cons.IH [OF this] True show ?thesis by auto
  next
    case False
    then have "Host ep \<in> fst ` set hostMap" by (simp add: map_of_eq_None_iff)
    with Cons.IH [OF Cons.prems] False show ?thesis by auto
  qed
qed

lemma consolidateByHost_facts:
  "distinct (map fst (consolidateByHost endpoints))
   \<and> map (Host \<circ> snd) (consolidateByHost endpoints) = map fst (consolidateByHost endpoints)
   \<and> list_all (\<lambda>e. Path e = []) (map snd (consolidateByHost endpoints))
   \<and> fst ` set (consolidateByHost endpoints) = Host ` set endpoints"
proof -
  from consolidate_step [of "[]" endpoints]
  have d: "distinct (map fst (consolidateByHost endpoints))"
    and v: "list_all (\<lambda>(k, e). e = \<lparr>Host = k, Path = []\<rparr>) (consolidateByHost endpoints)"
    and s: "fst ` set (consolidateByHost endpoints) = Host ` set endpoints"
    by (simp_all add: consolidateByHost_def)
  from v have "map (Host \<circ> snd) (consolidateByHost endpoints) = map fst (consolidateByHost endpoints)"
    by (auto simp: list_all_iff)
  moreover from v have "list_all (\<lambda>e. Path e = []) (map snd (consolidateByHost endpoints))"
    by (auto simp: list_all_iff)
  ultimately show ?thesis using d s by simp
qed

lemma distinct_count_one:
  "distinct (map f xs) \<Longrightarrow> length (filter (\<lambda>e. f e = h) xs) = (if h \<in> f ` set xs then 1 else 0)"
  by (induction xs) auto

text \<open>
  Claim C1. For every routing tree and every order in which Go walks its maps, the
  endpoints \<open>DiscoverEndpoints\<close> returns after the consolidation by host hold exactly
  one entry for every distinct host among the discovered endpoints, however many paths
  were discovered for it: the hosts of the result are distinct, they are the hosts of
  the endpoint map, every host of the map is counted once, every entry has the empty
  path, and the name of the mapping made from an entry is its host, so the names of the
  resulting mappings are unique.
\<close>

theorem DiscoverEndpoints_one_per_host:
  assumes "\<And>xs. mset (rangeEndpointMap xs) = mset xs"
    and "\<And>xs. mset (rangeHostMap xs) = mset xs"
  shows "distinct (map Host (DiscoverEndpoints rangeEndpointMap rangeHostMap app))
   \<and> set (map Host (DiscoverEndpoints rangeEndpointMap rangeHostMap app))
       = set (map (Host \<circ> snd) (discoverEndpointMap app))
   \<and> length (filter (\<lambda>e. Host e = h) (DiscoverEndpoints rangeEndpointMap rangeHostMap app))
       = (if h \<in> set (map (Host \<circ> snd) (discoverEndpointMap app)) then 1 else 0)
   \<and> list_all (\<lambda>e. Path e = []) (DiscoverEndpoints rangeEndpointMap rangeHostMap app)
   \<and> map (\<lambda>e. Name (ToResourceMapping e addr))
         (DiscoverEndpoints rangeEndpointMap rangeHostMap app)
       = map Host (DiscoverEndpoints rangeEndpointMap rangeHostMap app)
   \<and> distinct (map (\<lambda>e. Name (ToResourceMapping e addr))
         (DiscoverEndpoints rangeEndpointMap rangeHostMap app))"
proof -
  let ?eps = "rangeEndpointMap (map snd (discoverEndpointMap app))"
  let ?out = "DiscoverEndpoints rangeEndpointMap rangeHostMap app"
  note facts = consolidateByHost_facts [of ?eps]
  have out: "?out = rangeHostMap (map snd (consolidateByHost ?eps))"
    by (simp add: DiscoverEndpoints_def Let_def)
  have perm: "mset ?out = mset (map snd (consolidateByHost ?eps))"
    by (simp add: out assms(2))
  have eps: "set ?eps = set (map snd (discoverEndpointMap app))"
    using assms(1) by (rule mset_eq_setD)
  have "mset (map Host ?out) = mset (map fst (consolidateByHost ?eps))"
    using perm facts by (metis map_map mset_map)
  then have d: "distinct (map Host ?out)"
    using facts by (metis mset_eq_imp_distinct_iff)
  have "set ?out = set (map snd (consolidateByHost ?eps))"
    using perm by (rule mset_eq_setD)
  then have "Host ` set ?out = fst ` set (consolidateByHost ?eps)"
    using facts by (metis image_set list.set_map map_map)
  then have s: "set (map Host ?out) = set (map (Host \<circ> snd) (discoverEndpointMap app))"
    using facts eps by (simp add: image_image)
  have c: "length (filter (\<lambda>e. Host e = h) ?out)
       = (if h \<in> set (map (Host \<circ> snd) (discoverEndpointMap app)) then 1 else 0)"
    using distinct_count_one [OF d, of h] s by simp
  have p: "list_all (\<lambda>e. Path e = []) ?out"
    using facts \<open>set ?out = set (map snd (consolidateByHost ?eps))\<close>
    by (simp add: list_all_iff)
  have n: "map (\<lambda>e. Name (ToResourceMapping e addr)) ?out = map Host ?out"
    by (simp add: ToResourceMapping_def ResourceName_def)
  have "distinct (map (\<lambda>e. Name (ToResourceMapping e addr)) ?out)"
    unfolding n by (rule d)
  with d s c p n show ?thesis by blast
qed

theorem DiscoverEndpoints_one_per_host_witness:
  "map snd (discoverEndpointMap example_app)
     = [\<lparr>Host = ''api.example.com'', Path = ''/v1/''\<rparr>,
        \<lparr>Host = ''app.example.com'', Path = ''/api/''\<rparr>,
        \<lparr>Host = ''app.example.com'', Path = ''/admin/''\<rparr>]
   \<and> DiscoverEndpoints rev rev example_app
     = [\<lparr>Host = ''api.example.com'', Path = []\<rparr>, \<lparr>Host = ''app.example.com'', Path = []\<rparr>]
   \<and> length (filter (\<lambda>e. Host e = ''app.example.com'') (DiscoverEndpoints rev rev example_app))
     = 1
   \<and> map (\<lambda>e. Name (ToResourceMapping e ''10.0.0.1'')) (DiscoverEndpoints rev rev example_app)
     = [''api.example.com'', ''app.example.com'']"
proof -
  have m: "map snd (discoverEndpointMap example_app)
     = [\<lparr>Host = ''api.example.com'', Path = ''/v1/''\<rparr>,
        \<lparr>Host = ''app.example.com'', Path = ''/api/''\<rparr>,
        \<lparr>Host = ''app.example.com'', Path = ''/admin/''\<rparr>]"
    by code_simp
  have e: "DiscoverEndpoints rev rev example_app
     = [\<lparr>Host = ''api.example.com'', Path = []\<rparr>, \<lparr>Host = ''app.example.com'', Path = []\<rparr>]"
    by code_simp
  have r: "mset (rev xs) = mset xs" for xs :: "Endpoint list" by simp
  from DiscoverEndpoints_one_per_host [of rev rev example_app "''app.example.com''" "''10.0.0.1''",
      OF r r]
  show ?thesis unfolding e m by simp
qed

section \<open>Provisioned and raw handlers\<close>

text \<open>
  Claim C9, at the input where the code departs from it. A subroute whose inner route
  has a host matcher and a path matcher, traversed below the context of host
  \<open>gateway.example.com\<close>: as a provisioned value it yields the endpoint of the inner
  route's host and path; as the raw JSON of the same handler it yields an endpoint of
  the context's host with the empty path, since the route decoded from JSON has no
  provisioned matcher sets and \<open>mergeMatchers\<close> reads no others.
\<close>

theorem raw_subroute_drops_nested_matchers:
  "map snd (traverseHandler example_subroute example_context [])
     = [\<lparr>Host = ''api.example.com'', Path = ''/v1/''\<rparr>]
   \<and> map snd (traverseHandlerRaw (encodeHandler example_subroute) example_context [])
     = [\<lparr>Host = ''gateway.example.com'', Path = []\<rparr>]"
  by code_simp

text \<open>
  Where no nested route changes the routing context, the raw traversal of the JSON form
  of a handler and the traversal of the provisioned handler give the same endpoint map:
  the same emissions for a proxy leaf, the same recursion for a subroute, the same skip
  for an opaque handler.
\<close>

lemma fold_inert: "list_all inert_matcher ms \<Longrightarrow>
  fold (\<lambda>matcher ctx. case matcher of
                       MatchHost m \<Rightarrow> ctx\<lparr>ctx_Hosts := m\<rparr>
                     | MatchPath paths \<Rightarrow>
                         (case paths of
                            [] \<Rightarrow> ctx
                          | p # ps \<Rightarrow> ctx\<lparr>ctx_Path := normalizePath p\<rparr>)
                     | MatchOther name \<Rightarrow> ctx) ms ctx = ctx"
  by (induction ms) (auto simp: inert_matcher_def split: matcher.splits)

lemma mergeMatchers_inert:
  "list_all (list_all inert_matcher) (MatcherSets route) \<Longrightarrow> mergeMatchers route ctx = ctx"
proof -
  assume a: "list_all (list_all inert_matcher) (MatcherSets route)"
  have "fold (\<lambda>matcherSet ctx.
             fold (\<lambda>matcher ctx.
                     case matcher of
                       MatchHost m \<Rightarrow> ctx\<lparr>ctx_Hosts := m\<rparr>
                     | MatchPath paths \<Rightarrow>
                         (case paths of
                            [] \<Rightarrow> ctx
                          | p # ps \<Rightarrow> ctx\<lparr>ctx_Path := normalizePath p\<rparr>)
                     | MatchOther name \<Rightarrow> ctx)
                  matcherSet ctx) mss c = c" if "list_all (list_all inert_matcher) mss" for mss c
    using that by (induction mss) (simp_all add: fold_inert)
  from this [OF a] show ?thesis by (cases ctx) (simp add: mergeMatchers_def)
qed

lemma unmarshalRoute_encodeRoute:
  "unmarshalRoute (encodeRoute (Route matcherSets handlers raws))
     = Some (Route [] [] (if handlers = [] then raws else map encodeHandler handlers))"
  by (simp add: unmarshalRoute_def field_ok_def field_get_def field_values_def toLower_def
      is_array_def is_module_maps_def list_all_iff)

lemma traverseRoute_decoded:
  "traverseRoute (Route [] [] raws) ctx em
     = fold (\<lambda>handlerRaw m. traverseHandlerRaw handlerRaw ctx m) raws em"
  by (cases ctx; cases raws) (simp_all add: traverseRoute.simps mergeMatchers_def Let_def)

lemma traverseRoute_plain:
  "list_all (list_all inert_matcher) matcherSets \<Longrightarrow>
   traverseRoute (Route matcherSets handlers raws) ctx em
     = (if handlers = [] then fold (\<lambda>handlerRaw m. traverseHandlerRaw handlerRaw ctx m) raws em
        else fold (\<lambda>handler m. traverseHandler handler ctx m) handlers em)"
  by (cases raws) (simp_all add: traverseRoute.simps mergeMatchers_inert Let_def)

lemma fold_agree: "(\<And>x m. x \<in> set xs \<Longrightarrow> f x m = g x m) \<Longrightarrow> fold f xs m = fold g xs m"
  by (induction xs arbitrary: m) simp_all

lemma raw_agrees_on_plain:
  "plain_handler h \<Longrightarrow> traverseHandlerRaw (encodeHandler h) ctx em = traverseHandler h ctx em"
  "plain_route r \<Longrightarrow>
     (case unmarshalRoute (encodeRoute r) of Some route \<Rightarrow> traverseRoute route ctx em | None \<Rightarrow> em)
       = traverseRoute r ctx em"
proof (induction h and r arbitrary: ctx em and ctx em)
  case ReverseProxy
  show ?case by (simp add: traverseHandlerRaw.simps object_get_def)
next
  case (Subroute routes)
  have "traverseHandlerRaw (encodeHandler (Subroute routes)) ctx em
      = fold (\<lambda>routeAny m. case unmarshalRoute routeAny of
                Some route \<Rightarrow> traverseRoute route ctx m | None \<Rightarrow> m)
          (map encodeRoute routes) em"
    by (simp add: traverseHandlerRaw.simps object_get_def)
  also have "\<dots> = fold (\<lambda>r m. case unmarshalRoute (encodeRoute r) of
                Some route \<Rightarrow> traverseRoute route ctx m | None \<Rightarrow> m) routes em"
    by (simp add: fold_map comp_def)
  also have "\<dots> = fold (\<lambda>route m. traverseRoute route ctx m) routes em"
    using Subroute by (intro fold_agree) (simp add: list_all_iff)
  finally show ?case by simp
next
  case (OtherHandler name)
  then show ?case by (simp add: traverseHandlerRaw.simps object_get_def)
next
  case (Route matcherSets handlers raws)
  from Route.prems have inert: "list_all (list_all inert_matcher) matcherSets"
    and plain: "list_all plain_handler handlers" by simp_all
  show ?case
  proof (cases "handlers = []")
    case True
    show ?thesis unfolding unmarshalRoute_encodeRoute using True
      by (simp add: traverseRoute_decoded traverseRoute_plain [OF inert])
  next
    case False
    have "fold (\<lambda>handlerRaw m. traverseHandlerRaw handlerRaw ctx m) (map encodeHandler handlers) em
        = fold (\<lambda>handler m. traverseHandlerRaw (encodeHandler handler) ctx m) handlers em"
      by (simp add: fold_map comp_def)
    also have "\<dots> = fold (\<lambda>handler m. traverseHandler handler ctx m) handlers em"
      using Route.IH plain by (intro fold_agree) (simp add: list_all_iff)
    finally show ?thesis unfolding unmarshalRoute_encodeRoute using False
      by (simp add: traverseRoute_decoded traverseRoute_plain [OF inert])
  qed
qed

end
